theory Spec2Isabelle
  imports Complex_Main
begin

section \<open>Failures\<close>

text \<open>
  The transcription code of \<^verbatim>\<open>CasOCTranscription.cpp\<close> can stop in four ways that
  are not a normal return: an \<^verbatim>\<open>OpenSim::Exception\<close> thrown by \<^verbatim>\<open>OPENSIM_THROW\<close>
  (with its message), an exception of the CasADi library (an index or a slice out of
  bounds, a dimension mismatch, a negative dimension), a \<^verbatim>\<open>std::out_of_range\<close> of
  \<^verbatim>\<open>at()\<close> on a standard container, and an unchecked read past the end of a
  \<^verbatim>\<open>std::vector\<close> (\<^verbatim>\<open>operator[]\<close>), which C++ leaves undefined. Every function
  that can stop so returns \<open>failure + 'a\<close>, \<open>Inl\<close> being the failure.
\<close>

datatype failure =
    OpenSimException string
  | CasadiException
  | StdOutOfRange
  | UndefinedBehaviour

definition andThen :: "failure + 'a \<Rightarrow> ('a \<Rightarrow> failure + 'b) \<Rightarrow> failure + 'b" where
  "andThen r f = (case r of Inl e \<Rightarrow> Inl e | Inr x \<Rightarrow> f x)"

section \<open>Matrices\<close>

text \<open>
  A CasADi matrix (\<^verbatim>\<open>casadi::DM\<close>, numeric, or \<^verbatim>\<open>casadi::MX\<close>, symbolic) is held
  column by column, as CasADi stores it: \<open>size1\<close> is the number of rows and \<open>cols\<close>
  the list of columns, each a list of \<open>size1\<close> entries. A symbolic matrix is
  represented by its value under a valuation of the symbols (see \<open>MXsym\<close> below), so
  both kinds are matrices of reals, and an equation between two symbolic matrices
  proved for every valuation is an identity of the expressions.

  The operations of CasADi that the transcription uses are defined by the entries of
  their results: \<open>tabulate r c f\<close> is the \<open>r \<times> c\<close> matrix with entry \<open>f i j\<close> at row
  \<open>i\<close> and column \<open>j\<close>.
\<close>

record matrix =
  size1 :: nat
  cols :: "real list list"

definition size2 :: "matrix \<Rightarrow> nat" where
  "size2 m = length (cols m)"

definition numel :: "matrix \<Rightarrow> nat" where
  "numel m = size1 m * size2 m"

definition ent :: "matrix \<Rightarrow> nat \<Rightarrow> nat \<Rightarrow> real" where
  "ent m i j = cols m ! j ! i"

definition tabulate :: "nat \<Rightarrow> nat \<Rightarrow> (nat \<Rightarrow> nat \<Rightarrow> real) \<Rightarrow> matrix" where
  "tabulate r c f = \<lparr>size1 = r, cols = map (\<lambda>j. map (\<lambda>i. f i j) [0..<r]) [0..<c]\<rparr>"

text \<open>
  The entries in storage order (column-major), as linear indexing \<^verbatim>\<open>v(k)\<close> sees them:
  entry \<open>k\<close> is at row \<open>k mod size1\<close> of column \<open>k div size1\<close>.
\<close>

definition entLinear :: "matrix \<Rightarrow> nat \<Rightarrow> real" where
  "entLinear m k = ent m (k mod size1 m) (k div size1 m)"

definition elems :: "matrix \<Rightarrow> real list" where
  "elems m = map (entLinear m) [0..<numel m]"

text \<open>A \<open>1 \<times> n\<close> row, a \<open>1 \<times> 1\<close> matrix, and the empty matrix of a default constructor.\<close>

definition rowvec :: "real list \<Rightarrow> matrix" where
  "rowvec xs = \<lparr>size1 = 1, cols = map (\<lambda>x. [x]) xs\<rparr>"

definition scalarM :: "real \<Rightarrow> matrix" where
  "scalarM x = \<lparr>size1 = 1, cols = [[x]]\<rparr>"

definition emptyM :: matrix where
  "emptyM = \<lparr>size1 = 0, cols = []\<rparr>"

definition isScalar :: "matrix \<Rightarrow> bool" where
  "isScalar m = (size1 m = 1 \<and> size2 m = 1)"


definition at1 :: "matrix \<Rightarrow> nat \<Rightarrow> failure + real" where
  "at1 m k = (if k < numel m then Inr (entLinear m k) else Inl CasadiException)"


text \<open>
  Constructors. The dimensions are C++ \<^verbatim>\<open>int\<close>s, some of them differences
  (\<^verbatim>\<open>m_numMeshIntervals\<close>, \<^verbatim>\<open>m_numPointsIgnoringConstraints\<close>); CasADi refuses a
  negative dimension. \<open>zerosM\<close> is \<^verbatim>\<open>MX(r, c)\<close>, \<^verbatim>\<open>DM(r, c)\<close> and
  \<^verbatim>\<open>DM::zeros(r, c)\<close>; \<open>denseM\<close> is \<^verbatim>\<open>MX(Sparsity::dense(r, c))\<close>, which CasADi
  fills with ones; \<open>repmat A n k\<close> stacks \<open>n\<close> copies vertically and \<open>k\<close>
  horizontally.
\<close>

definition constM :: "real \<Rightarrow> int \<Rightarrow> int \<Rightarrow> failure + matrix" where
  "constM x r c =
     (if r < 0 \<or> c < 0 then Inl CasadiException
      else Inr (tabulate (nat r) (nat c) (\<lambda>i j. x)))"

definition zerosM :: "int \<Rightarrow> int \<Rightarrow> failure + matrix" where
  "zerosM r c = constM 0 r c"

definition denseM :: "int \<Rightarrow> int \<Rightarrow> failure + matrix" where
  "denseM r c = constM 1 r c"

definition repmat :: "matrix \<Rightarrow> int \<Rightarrow> int \<Rightarrow> failure + matrix" where
  "repmat A n k =
     (if n < 0 \<or> k < 0 then Inl CasadiException
      else Inr (tabulate (nat n * size1 A) (nat k * size2 A)
                  (\<lambda>i j. ent A (i mod size1 A) (j mod size2 A))))"

text \<open>
  Reading blocks. \<open>getCols m idx\<close> is \<^verbatim>\<open>m(Slice(), idx)\<close> for an index vector,
  \<open>getRows m a b\<close> is \<^verbatim>\<open>m(Slice(a, b), Slice())\<close>: a slice whose stop exceeds the
  number of rows is out of bounds, a slice whose stop is not above its start is empty.
  \<open>getRow m i\<close> is \<^verbatim>\<open>m(i, Slice())\<close> and \<open>lastCol m\<close> is \<^verbatim>\<open>m(Slice(), -1)\<close>.
\<close>

definition getCols :: "matrix \<Rightarrow> nat list \<Rightarrow> failure + matrix" where
  "getCols m idx =
     (if list_all (\<lambda>j. j < size2 m) idx
      then Inr (tabulate (size1 m) (length idx) (\<lambda>i k. ent m i (idx ! k)))
      else Inl CasadiException)"

definition getRows :: "matrix \<Rightarrow> nat \<Rightarrow> nat \<Rightarrow> failure + matrix" where
  "getRows m a b =
     (if b \<le> size1 m
      then Inr (tabulate (b - a) (size2 m) (\<lambda>i j. ent m (a + i) j))
      else Inl CasadiException)"

definition getBlock :: "matrix \<Rightarrow> nat \<Rightarrow> nat \<Rightarrow> nat list \<Rightarrow> failure + matrix" where
  "getBlock m a b idx = andThen (getRows m a b) (\<lambda>r. getCols r idx)"


definition lastCol :: "matrix \<Rightarrow> failure + matrix" where
  "lastCol m =
     (if size2 m = 0 then Inl CasadiException
      else Inr (tabulate (size1 m) 1 (\<lambda>i j. ent m i (size2 m - 1))))"

text \<open>
  Writing blocks. \<open>setBlock m a b idx B\<close> is \<^verbatim>\<open>m(Slice(a, b), idx) = B\<close>: column
  \<open>idx ! k\<close> of \<open>m\<close> receives, in rows \<open>a..<b\<close>, column \<open>k\<close> of \<open>B\<close>; when an
  index occurs twice the later column wins, as in CasADi's sequential assignment
  (\<open>lastPos idx j\<close> is the last position of \<open>j\<close> in \<open>idx\<close>). \<open>B\<close> must be
  \<open>(b - a) \<times> length idx\<close>; the scalar and transposed-vector right-hand sides that
  CasADi also accepts are counted as a dimension mismatch here, the blocks assigned by
  this code being full blocks. \<open>allCols m\<close> is \<^verbatim>\<open>Slice()\<close> for the columns.
\<close>

fun lastPos :: "nat list \<Rightarrow> nat \<Rightarrow> nat" where
  "lastPos [] j = 0"
| "lastPos (x # xs) j = (if j \<in> set xs then Suc (lastPos xs j) else 0)"

definition setBlock :: "matrix \<Rightarrow> nat \<Rightarrow> nat \<Rightarrow> nat list \<Rightarrow> matrix \<Rightarrow> failure + matrix" where
  "setBlock m a b idx B =
     (if b \<le> size1 m \<and> list_all (\<lambda>j. j < size2 m) idx
         \<and> size1 B = b - a \<and> size2 B = length idx
      then Inr (tabulate (size1 m) (size2 m)
                  (\<lambda>i j. if a \<le> i \<and> i < b \<and> j \<in> set idx
                         then ent B (i - a) (lastPos idx j) else ent m i j))
      else Inl CasadiException)"

definition allCols :: "matrix \<Rightarrow> nat list" where
  "allCols m = [0..<size2 m]"

text \<open>
  Elementwise arithmetic. Two operands of the same shape are combined entry by entry, a
  \<open>1 \<times> 1\<close> operand is combined with every entry of the other; other pairs of shapes
  are counted as a dimension mismatch.
\<close>

definition mapM :: "(real \<Rightarrow> real) \<Rightarrow> matrix \<Rightarrow> matrix" where
  "mapM f m = tabulate (size1 m) (size2 m) (\<lambda>i j. f (ent m i j))"

definition binaryM :: "(real \<Rightarrow> real \<Rightarrow> real) \<Rightarrow> matrix \<Rightarrow> matrix \<Rightarrow> failure + matrix" where
  "binaryM f A B =
     (if isScalar A then Inr (mapM (\<lambda>y. f (ent A 0 0) y) B)
      else if isScalar B then Inr (mapM (\<lambda>x. f x (ent B 0 0)) A)
      else if size1 A = size1 B \<and> size2 A = size2 B
      then Inr (tabulate (size1 A) (size2 A) (\<lambda>i j. f (ent A i j) (ent B i j)))
      else Inl CasadiException)"

definition plusM :: "matrix \<Rightarrow> matrix \<Rightarrow> failure + matrix" where
  "plusM A B = binaryM (+) A B"

definition minusM :: "matrix \<Rightarrow> matrix \<Rightarrow> failure + matrix" where
  "minusM A B = binaryM (-) A B"

definition timesM :: "matrix \<Rightarrow> matrix \<Rightarrow> failure + matrix" where
  "timesM A B = binaryM (*) A B"

text \<open>\<^verbatim>\<open>m(Slice(a, b), idx) += B\<close>: read the block, add, write it back.\<close>

definition addBlock :: "matrix \<Rightarrow> nat \<Rightarrow> nat \<Rightarrow> nat list \<Rightarrow> matrix \<Rightarrow> failure + matrix" where
  "addBlock m a b idx B =
     andThen (getBlock m a b idx) (\<lambda>cur.
     andThen (plusM cur B) (\<lambda>s.
     setBlock m a b idx s))"

text \<open>
  \<^verbatim>\<open>MX::sq\<close> squares every entry, \<^verbatim>\<open>MX::sum1\<close> sums each column into a row,
  \<^verbatim>\<open>T()\<close> transposes, \<^verbatim>\<open>dot\<close> is the sum of the entrywise products of two
  matrices of the same shape. \<^verbatim>\<open>DM::norm_2\<close> of a vector is the square root of
  \<open>sumOfSquares\<close>.
\<close>

definition sq :: "matrix \<Rightarrow> matrix" where
  "sq m = mapM (\<lambda>x. x * x) m"

definition sum1 :: "matrix \<Rightarrow> matrix" where
  "sum1 m = tabulate 1 (size2 m) (\<lambda>r j. sum_list (map (\<lambda>i. ent m i j) [0..<size1 m]))"

definition transposeM :: "matrix \<Rightarrow> matrix" where
  "transposeM m = tabulate (size2 m) (size1 m) (\<lambda>i j. ent m j i)"

definition dot :: "matrix \<Rightarrow> matrix \<Rightarrow> failure + matrix" where
  "dot A B =
     (if size1 A = size1 B \<and> size2 A = size2 B
      then Inr (scalarM (sum_list (map (\<lambda>k. entLinear A k * entLinear B k) [0..<numel A])))
      else Inl CasadiException)"



section \<open>The problem, the solver settings and the transcription object\<close>

text \<open>
  The keys of the variable tables (\<^verbatim>\<open>enum Var\<close>). \<open>multibody_states\<close> is a tag for
  inputs of point functions only; no table has it as a key.
\<close>

datatype Var =
    initial_time | final_time | states | controls | multipliers | derivatives
  | slacks | parameters | multibody_states

type_synonym variables = "Var \<rightharpoonup> matrix"

text \<open>\<^verbatim>\<open>vars.at(key)\<close> throws \<^verbatim>\<open>std::out_of_range\<close> for a missing key.\<close>

definition varAt :: "variables \<Rightarrow> Var \<Rightarrow> failure + matrix" where
  "varAt vars v = (case vars v of None \<Rightarrow> Inl StdOutOfRange | Some m \<Rightarrow> Inr m)"

text \<open>
  A \<^verbatim>\<open>casadi::Function\<close> is opaque to the transcription: \<open>call\<close> evaluates it on a
  list of matrices, and \<open>mapped n\<close> is \<^verbatim>\<open>map(n, parallelism)\<close>, the function lifted
  over \<open>n\<close> time points, which is called the same way. Both may throw.
\<close>

record casFunction =
  call :: "matrix list \<Rightarrow> failure + matrix list"
  mapped :: "nat \<Rightarrow> failure + (matrix list \<Rightarrow> failure + matrix list)"

record Bounds =
  lower :: real
  upper :: real

record PathConstraintInfo =
  pc_name :: string
  pc_size :: int
  lowerBounds :: matrix
  upperBounds :: matrix
  pc_function :: casFunction

record Problem =
  getNumCoordinates :: nat
  getNumSpeeds :: nat
  getNumStates :: nat
  getNumControls :: nat
  getNumMultipliers :: nat
  getNumDerivatives :: nat
  getNumSlacks :: nat
  getNumParameters :: nat
  getNumKinematicConstraintEquations :: nat
  getKinematicConstraintBounds :: Bounds
  getPathConstraintInfos :: "PathConstraintInfo list"
  getMultiplierNames :: "string list"
  getEnforceConstraintDerivatives :: bool
  getVelocityCorrection :: casFunction
  getMultibodySystem :: casFunction
  getMultibodySystemIgnoringConstraints :: casFunction
  getImplicitMultibodySystem :: casFunction
  getImplicitMultibodySystemIgnoringConstraints :: casFunction
  getIntegralCostIntegrand :: casFunction
  getEndpointCost :: casFunction

record Solver =
  getMesh :: "real list"
  isDynamicsModeImplicit :: bool
  getMinimizeLagrangeMultipliers :: bool
  getLagrangeMultiplierWeight :: real

record Constraints =
  defects :: matrix
  residuals :: matrix
  kinematic :: matrix
  path :: "matrix list"

text \<open>
  The members of \<^verbatim>\<open>Transcription\<close>. The counts are C++ \<^verbatim>\<open>int\<close>s; they are
  integers here, the products and sums of \<^verbatim>\<open>createVariablesAndSetBounds\<close> being
  taken in the integers (no wrap-around: the counts are numbers of entries of matrices
  that the same object allocates). The three index vectors are
  \<^verbatim>\<open>casadi::Matrix<casadi_int>\<close> rows, held as lists of column indices.
\<close>

record Transcription =
  m_numMeshPoints :: int
  m_numGridPoints :: int
  m_numMeshIntervals :: int
  m_numPointsIgnoringConstraints :: int
  m_numDefectsPerGridPoint :: int
  m_numResiduals :: int
  m_numConstraints :: int
  m_grid :: matrix
  m_vars :: variables
  m_duration :: matrix
  m_times :: matrix
  m_paramsTrajGrid :: matrix
  m_paramsTraj :: matrix
  m_paramsTrajIgnoringConstraints :: matrix
  m_kinematicConstraintIndices :: matrix
  m_gridIndices :: "nat list"
  m_daeIndices :: "nat list"
  m_daeIndicesIgnoringConstraints :: "nat list"
  m_lowerBounds :: variables
  m_upperBounds :: variables
  m_xdot :: matrix
  m_objective :: matrix
  m_constraints :: Constraints
  m_constraintsLowerBounds :: Constraints
  m_constraintsUpperBounds :: Constraints

text \<open>
  The pure virtual functions of \<^verbatim>\<open>Transcription\<close>, which the scheme-specific
  subclasses implement, are parameters.

  Modelled from the spec: \<^verbatim>\<open>createQuadratureCoefficients\<close>,
  \<^verbatim>\<open>createKinematicConstraintIndices\<close> and \<^verbatim>\<open>calcDefects\<close> are not among the
  sources. The quadrature coefficients are a \<open>G \<times> 1\<close> vector and the
  kinematic-constraint mask a \<open>1 \<times> G\<close> row, both fixed by the mesh and the
  collocation rule; \<^verbatim>\<open>calcDefects\<close> produces the defect block from the transcription
  (its states and \<^verbatim>\<open>m_xdot\<close>).
\<close>

record Scheme =
  createQuadratureCoefficients :: matrix
  createKinematicConstraintIndices :: matrix
  calcDefects :: "Transcription \<Rightarrow> failure + matrix"

text \<open>
  A symbolic matrix \<^verbatim>\<open>MX::sym(name, r, c)\<close> under a valuation: the valuation gives
  the value of the symbol at row \<open>i\<close> and column \<open>j\<close> of the block.
\<close>

type_synonym valuation = "Var \<Rightarrow> nat \<Rightarrow> nat \<Rightarrow> real"

definition MXsym :: "valuation \<Rightarrow> Var \<Rightarrow> int \<Rightarrow> int \<Rightarrow> failure + matrix" where
  "MXsym \<sigma> v r c =
     (if r < 0 \<or> c < 0 then Inl CasadiException
      else Inr (tabulate (nat r) (nat c) (\<sigma> v)))"

text \<open>
  Modelled from the spec: \<^verbatim>\<open>createTimes\<close> is declared in the class header, which
  is not among the sources. The spec gives \<open>t(\<tau>) = t\<^sub>0 + (t\<^sub>f - t\<^sub>0) \<cdot> \<tau>\<close> on the
  normalized grid.
\<close>

definition createTimes :: "matrix \<Rightarrow> matrix \<Rightarrow> matrix \<Rightarrow> failure + matrix" where
  "createTimes grid initialTime finalTime =
     andThen (minusM finalTime initialTime) (\<lambda>d.
     andThen (timesM d grid) (\<lambda>x.
     plusM x initialTime))"

section \<open>createVariablesAndSetBounds\<close>

text \<open>
  The loop that adds \<^verbatim>\<open>info.size() * m_numMeshPoints\<close> for every path constraint.
\<close>

fun addPathConstraintCounts :: "PathConstraintInfo list \<Rightarrow> int \<Rightarrow> int \<Rightarrow> int" where
  "addPathConstraintCounts [] M n = n"
| "addPathConstraintCounts (info # infos) M n =
     addPathConstraintCounts infos M (n + pc_size info * M)"

text \<open>
  The loop over the kinematic-constraint mask: index \<open>i\<close> goes to the first list when
  \<^verbatim>\<open>m_kinematicConstraintIndices(i).scalar() == 1\<close> and to the second otherwise.
\<close>

fun splitIndices :: "matrix \<Rightarrow> nat list \<Rightarrow> failure + (nat list \<times> nat list)" where
  "splitIndices kin [] = Inr ([], [])"
| "splitIndices kin (i # rest) =
     andThen (at1 kin i) (\<lambda>x.
     andThen (splitIndices kin rest) (\<lambda>(dae, ign).
     Inr (if x = 1 then (i # dae, ign) else (dae, i # ign))))"

text \<open>The eight symbolic blocks, created in the order of the source.\<close>

definition createVariables :: "valuation \<Rightarrow> Problem \<Rightarrow> int \<Rightarrow> int \<Rightarrow> failure + variables" where
  "createVariables \<sigma> P G Pn =
     andThen (MXsym \<sigma> initial_time 1 1) (\<lambda>t0.
     andThen (MXsym \<sigma> final_time 1 1) (\<lambda>tf.
     andThen (MXsym \<sigma> states (int (getNumStates P)) G) (\<lambda>x.
     andThen (MXsym \<sigma> controls (int (getNumControls P)) G) (\<lambda>c.
     andThen (MXsym \<sigma> multipliers (int (getNumMultipliers P)) G) (\<lambda>l.
     andThen (MXsym \<sigma> derivatives (int (getNumDerivatives P)) G) (\<lambda>w.
     andThen (MXsym \<sigma> slacks (int (getNumSlacks P)) Pn) (\<lambda>s.
     andThen (MXsym \<sigma> parameters (int (getNumParameters P)) 1) (\<lambda>p.
     Inr [initial_time \<mapsto> t0, final_time \<mapsto> tf, states \<mapsto> x, controls \<mapsto> c,
          multipliers \<mapsto> l, derivatives \<mapsto> w, slacks \<mapsto> s, parameters \<mapsto> p]))))))))"

text \<open>
  \<^verbatim>\<open>initializeBounds\<close>: a zero table of the shape of every variable block.
\<close>

definition initializeBounds :: "variables \<Rightarrow> variables" where
  "initializeBounds vars =
     (\<lambda>k. case vars k of None \<Rightarrow> None
          | Some m \<Rightarrow> Some (tabulate (size1 m) (size2 m) (\<lambda>i j. 0)))"

text \<open>
  The calls of \<^verbatim>\<open>setVariableBounds\<close> that fill the two bound tables are the
  parameter \<open>setBounds\<close>: the helper is declared in the class header, which is not
  among the sources, and no property below depends on the bounds it writes. The default
  members of a fresh object are empty matrices.
\<close>

definition emptyConstraints :: "nat \<Rightarrow> Constraints" where
  "emptyConstraints n =
     \<lparr>defects = emptyM, residuals = emptyM, kinematic = emptyM, path = replicate n emptyM\<rparr>"

definition createVariablesAndSetBounds ::
  "valuation \<Rightarrow> Solver \<Rightarrow> Problem \<Rightarrow> Scheme
     \<Rightarrow> (variables \<times> variables \<Rightarrow> failure + variables \<times> variables)
     \<Rightarrow> matrix \<Rightarrow> int \<Rightarrow> failure + Transcription" where
  "createVariablesAndSetBounds \<sigma> S P Sch setBounds grid numDefectsPerGridPoint =
     (let M = int (length (getMesh S));
          G = int (numel grid);
          I = M - 1;
          Pn = G - M;
          NR = (if isDynamicsModeImplicit S then int (getNumSpeeds P) else 0);
          nc = numDefectsPerGridPoint * I + NR * G
                 + int (getNumKinematicConstraintEquations P) * M;
          nc' = addPathConstraintCounts (getPathConstraintInfos P) M nc
      in
      andThen (createVariables \<sigma> P G Pn) (\<lambda>vars.
      andThen (varAt vars initial_time) (\<lambda>t0.
      andThen (varAt vars final_time) (\<lambda>tf.
      andThen (minusM tf t0) (\<lambda>duration.
      andThen (createTimes grid t0 tf) (\<lambda>times.
      andThen (varAt vars parameters) (\<lambda>p.
      andThen (repmat p 1 G) (\<lambda>paramsTrajGrid.
      andThen (repmat p 1 M) (\<lambda>paramsTraj.
      andThen (repmat p 1 Pn) (\<lambda>paramsTrajIgnoringConstraints.
      let kin = createKinematicConstraintIndices Sch in
      andThen (splitIndices kin [0..<size2 kin]) (\<lambda>(dae, ign).
      andThen (setBounds (initializeBounds vars, initializeBounds vars)) (\<lambda>(lb, ub).
      Inr \<lparr>m_numMeshPoints = M,
           m_numGridPoints = G,
           m_numMeshIntervals = I,
           m_numPointsIgnoringConstraints = Pn,
           m_numDefectsPerGridPoint = numDefectsPerGridPoint,
           m_numResiduals = NR,
           m_numConstraints = nc',
           m_grid = grid,
           m_vars = vars,
           m_duration = duration,
           m_times = times,
           m_paramsTrajGrid = paramsTrajGrid,
           m_paramsTraj = paramsTraj,
           m_paramsTrajIgnoringConstraints = paramsTrajIgnoringConstraints,
           m_kinematicConstraintIndices = kin,
           m_gridIndices = [0..<nat G],
           m_daeIndices = dae,
           m_daeIndicesIgnoringConstraints = ign,
           m_lowerBounds = lb,
           m_upperBounds = ub,
           m_xdot = emptyM,
           m_objective = emptyM,
           m_constraints = emptyConstraints (length (getPathConstraintInfos P)),
           m_constraintsLowerBounds = emptyConstraints 0,
           m_constraintsUpperBounds = emptyConstraints 0\<rparr>))))))))))))"

section \<open>evalOnTrajectory\<close>

text \<open>
  \<^verbatim>\<open>evalOnTrajectory\<close> takes the time indices by reference and decides which of the
  three repeated parameter blocks to pass by comparing the \<^emph>\<open>address\<close> of its
  argument with the addresses of the members \<^verbatim>\<open>m_gridIndices\<close>, \<^verbatim>\<open>m_daeIndices\<close>
  and \<^verbatim>\<open>m_daeIndicesIgnoringConstraints\<close>. A reference is therefore one of the three
  members, or some other index vector (a copy, a temporary), whatever its contents.
\<close>

datatype IndexRef =
    GridIndices
  | DaeIndices
  | DaeIndicesIgnoringConstraints
  | OtherIndices "nat list"

fun deref :: "Transcription \<Rightarrow> IndexRef \<Rightarrow> nat list" where
  "deref st GridIndices = m_gridIndices st"
| "deref st DaeIndices = m_daeIndices st"
| "deref st DaeIndicesIgnoringConstraints = m_daeIndicesIgnoringConstraints st"
| "deref st (OtherIndices v) = v"

text \<open>\<^verbatim>\<open>v.at(i)\<close> on a \<^verbatim>\<open>std::vector\<close>.\<close>

definition vecAt :: "'a list \<Rightarrow> nat \<Rightarrow> failure + 'a" where
  "vecAt v i = (if i < length v then Inr (v ! i) else Inl StdOutOfRange)"

text \<open>A loop that builds a vector and stops at the first failure.\<close>

fun forEach :: "('a \<Rightarrow> failure + 'b) \<Rightarrow> 'a list \<Rightarrow> failure + 'b list" where
  "forEach f [] = Inr []"
| "forEach f (x # xs) =
     andThen (f x) (\<lambda>y. andThen (forEach f xs) (\<lambda>ys. Inr (y # ys)))"

text \<open>
  One entry \<^verbatim>\<open>mxIn[i + 1]\<close>: the first \<^verbatim>\<open>NQ + NU\<close> rows of the states at the time
  indices for \<open>multibody_states\<close>, the whole block for \<open>slacks\<close>, the columns at the
  time indices otherwise.
\<close>

definition trajInput :: "Problem \<Rightarrow> Transcription \<Rightarrow> nat list \<Rightarrow> Var \<Rightarrow> failure + matrix" where
  "trajInput P st timeIndices v =
     (if v = multibody_states
      then andThen (varAt (m_vars st) states) (\<lambda>x.
             getBlock x 0 (getNumCoordinates P + getNumSpeeds P) timeIndices)
      else if v = slacks then varAt (m_vars st) v
      else andThen (varAt (m_vars st) v) (\<lambda>x. getCols x timeIndices))"

text \<open>The assembly of \<^verbatim>\<open>mxIn\<close>: the time row, the inputs, the parameters block.\<close>

definition evalOnTrajectory_mxIn ::
  "Problem \<Rightarrow> Transcription \<Rightarrow> Var list \<Rightarrow> IndexRef \<Rightarrow> failure + matrix list" where
  "evalOnTrajectory_mxIn P st inputs timeIndices =
     andThen (getCols (m_times st) (deref st timeIndices)) (\<lambda>t.
     andThen (forEach (trajInput P st (deref st timeIndices)) inputs) (\<lambda>ins.
     andThen (case timeIndices of
                GridIndices \<Rightarrow> Inr (m_paramsTrajGrid st)
              | DaeIndices \<Rightarrow> Inr (m_paramsTraj st)
              | DaeIndicesIgnoringConstraints \<Rightarrow> Inr (m_paramsTrajIgnoringConstraints st)
              | OtherIndices v \<Rightarrow> Inl (OpenSimException ''Internal error.'')) (\<lambda>p.
     Inr (t # ins @ [p]))))"

definition evalOnTrajectory ::
  "Problem \<Rightarrow> Transcription \<Rightarrow> casFunction \<Rightarrow> Var list \<Rightarrow> IndexRef
     \<Rightarrow> failure + matrix list" where
  "evalOnTrajectory P st pointFunction inputs timeIndices =
     andThen (mapped pointFunction (length (deref st timeIndices))) (\<lambda>trajFunc.
     andThen (evalOnTrajectory_mxIn P st inputs timeIndices) (\<lambda>mxIn.
     trajFunc mxIn))"

section \<open>setObjective\<close>

text \<open>
  \<^verbatim>\<open>m_vars[key]\<close>: all eight keys are present once \<^verbatim>\<open>createVariablesAndSetBounds\<close>
  has run; a missing key reads as the empty matrix that \<^verbatim>\<open>operator[]\<close> would insert.
\<close>

definition varGet :: "variables \<Rightarrow> Var \<Rightarrow> matrix" where
  "varGet vars v = (case vars v of None \<Rightarrow> emptyM | Some m \<Rightarrow> m)"

definition setObjective ::
  "Solver \<Rightarrow> Problem \<Rightarrow> Scheme \<Rightarrow> Transcription \<Rightarrow> failure + Transcription" where
  "setObjective S P Sch st =
     (let quadCoeffs = createQuadratureCoefficients Sch in
      andThen (evalOnTrajectory P st (getIntegralCostIntegrand P)
                 [states, controls, multipliers, derivatives] GridIndices) (\<lambda>out.
      andThen (vecAt out 0) (\<lambda>integrandTraj0.
      andThen (if getMinimizeLagrangeMultipliers S \<and> getNumMultipliers P \<noteq> 0
               then (let mults = varGet (m_vars st) multipliers;
                         multiplierWeight = getLagrangeMultiplierWeight S
                     in plusM integrandTraj0
                          (mapM (\<lambda>x. multiplierWeight * x) (sum1 (sq mults))))
               else Inr integrandTraj0) (\<lambda>integrandTraj.
      andThen (dot (transposeM quadCoeffs) integrandTraj) (\<lambda>d.
      andThen (timesM (m_duration st) d) (\<lambda>integralCost.
      andThen (lastCol (varGet (m_vars st) states)) (\<lambda>x.
      andThen (lastCol (varGet (m_vars st) controls)) (\<lambda>c.
      andThen (lastCol (varGet (m_vars st) multipliers)) (\<lambda>l.
      andThen (lastCol (varGet (m_vars st) derivatives)) (\<lambda>w.
      andThen (call (getEndpointCost P)
                 [varGet (m_vars st) final_time, x, c, l, w,
                  varGet (m_vars st) parameters]) (\<lambda>endpointCostOut.
      andThen (vecAt endpointCostOut 0) (\<lambda>endpointCost.
      andThen (plusM integralCost endpointCost) (\<lambda>objective.
      Inr (st\<lparr>m_objective := objective\<rparr>))))))))))))))"

text \<open>
  The objective as the specification words it, to be compared with the one that
  \<^verbatim>\<open>setObjective\<close> builds: \<open>J = (t\<^sub>f - t\<^sub>0) q\<^sup>T l + \<Phi> + w \<Sigma> \<lambda>\<^sup>2\<close>, the quadrature of the
  integrand \<open>l\<close> alone, and the regularization, when it is included, as a term of its
  own: \<open>w\<close> times the sum of the squares of all the entries of the multipliers.
\<close>

definition objective_spec ::
  "real \<Rightarrow> real \<Rightarrow> matrix \<Rightarrow> matrix \<Rightarrow> real \<Rightarrow> bool \<Rightarrow> real \<Rightarrow> matrix \<Rightarrow> real" where
  "objective_spec t0 tf q l Phi regularize w lam =
     (tf - t0) * (\<Sum>j\<leftarrow>[0..<size1 q]. ent q j 0 * ent l 0 j) + Phi
     + (if regularize then w * (\<Sum>x\<leftarrow>elems lam. x\<^sup>2) else 0)"

section \<open>transcribe\<close>

text \<open>
  The memory for the state derivatives, the defects, the residuals (in implicit mode
  only) and the kinematic constraints, with the bounds of these blocks.
\<close>

definition transcribe_init ::
  "Solver \<Rightarrow> Problem \<Rightarrow> Transcription \<Rightarrow> failure + Transcription" where
  "transcribe_init S P st =
     (let NS = int (getNumStates P);
          Nd = m_numDefectsPerGridPoint st;
          I = m_numMeshIntervals st;
          G = m_numGridPoints st;
          M = m_numMeshPoints st;
          NR = m_numResiduals st;
          K = int (getNumKinematicConstraintEquations P);
          kcBounds = getKinematicConstraintBounds P
      in
      andThen (zerosM NS G) (\<lambda>xdot.
      andThen (denseM Nd I) (\<lambda>d.
      andThen (zerosM Nd I) (\<lambda>dl.
      andThen (zerosM Nd I) (\<lambda>du.
      andThen (if isDynamicsModeImplicit S
               then andThen (denseM NR G) (\<lambda>r.
                    andThen (zerosM NR G) (\<lambda>rl.
                    andThen (zerosM NR G) (\<lambda>ru. Inr (r, rl, ru))))
               else Inr (residuals (m_constraints st),
                         residuals (m_constraintsLowerBounds st),
                         residuals (m_constraintsUpperBounds st))) (\<lambda>(r, rl, ru).
      andThen (denseM K M) (\<lambda>k.
      andThen (repmat (scalarM (lower kcBounds)) K M) (\<lambda>kl.
      andThen (repmat (scalarM (upper kcBounds)) K M) (\<lambda>ku.
      Inr (st\<lparr>m_xdot := xdot,
              m_constraints := (m_constraints st)
                 \<lparr>defects := d, residuals := r, kinematic := k\<rparr>,
              m_constraintsLowerBounds := (m_constraintsLowerBounds st)
                 \<lparr>defects := dl, residuals := rl, kinematic := kl\<rparr>,
              m_constraintsUpperBounds := (m_constraintsUpperBounds st)
                 \<lparr>defects := du, residuals := ru, kinematic := ku\<rparr>\<rparr>))))))))))"

text \<open>
  The qdot rows: the speed rows of the states, then, when the derivatives of the
  kinematic constraints are enforced and \<^verbatim>\<open>m_numPointsIgnoringConstraints\<close> is not
  zero, the velocity correction added at the columns
  \<^verbatim>\<open>m_daeIndicesIgnoringConstraints\<close>.
\<close>

definition transcribe_qdot ::
  "Problem \<Rightarrow> Transcription \<Rightarrow> failure + Transcription" where
  "transcribe_qdot P st =
     (let NQ = getNumCoordinates P; NU = getNumSpeeds P in
      andThen (getRows (varGet (m_vars st) states) NQ (NQ + NU)) (\<lambda>u.
      andThen (setBlock (m_xdot st) 0 NQ (allCols (m_xdot st)) u) (\<lambda>xdot.
      if getEnforceConstraintDerivatives P \<and> m_numPointsIgnoringConstraints st \<noteq> 0
      then
        andThen (evalOnTrajectory P st (getVelocityCorrection P)
                   [multibody_states, slacks] DaeIndicesIgnoringConstraints)
          (\<lambda>velocityCorrOut.
        andThen (vecAt velocityCorrOut 0) (\<lambda>uCorr.
        andThen (addBlock xdot 0 NQ (m_daeIndicesIgnoringConstraints st) uCorr) (\<lambda>xdot'.
        Inr (st\<lparr>m_xdot := xdot'\<rparr>))))
      else Inr (st\<lparr>m_xdot := xdot\<rparr>))))"

text \<open>udot, zdot, the residuals and the kinematic constraint errors.\<close>

definition transcribe_implicit ::
  "Problem \<Rightarrow> Transcription \<Rightarrow> failure + Transcription" where
  "transcribe_implicit P st =
     (let NQ = getNumCoordinates P; NU = getNumSpeeds P; NS = getNumStates P;
          w = varGet (m_vars st) derivatives;
          inputs = [states, controls, multipliers, derivatives];
          dae = m_daeIndices st;
          ign = m_daeIndicesIgnoringConstraints st
      in
      andThen (setBlock (m_xdot st) NQ (NQ + NU) (allCols (m_xdot st)) w) (\<lambda>xdot1.
      andThen (evalOnTrajectory P st (getImplicitMultibodySystem P) inputs DaeIndices)
        (\<lambda>out.
      andThen (vecAt out 0) (\<lambda>o0.
      andThen (setBlock (residuals (m_constraints st)) 0
                 (size1 (residuals (m_constraints st))) dae o0) (\<lambda>res1.
      andThen (vecAt out 1) (\<lambda>o1.
      andThen (setBlock xdot1 (NQ + NU) NS dae o1) (\<lambda>xdot2.
      andThen (vecAt out 2) (\<lambda>o2.
      if m_numPointsIgnoringConstraints st \<noteq> 0
      then
        andThen (evalOnTrajectory P st (getImplicitMultibodySystemIgnoringConstraints P)
                   inputs DaeIndicesIgnoringConstraints) (\<lambda>out'.
        andThen (vecAt out' 0) (\<lambda>p0.
        andThen (setBlock res1 0 (size1 res1) ign p0) (\<lambda>res2.
        andThen (vecAt out' 1) (\<lambda>p1.
        andThen (setBlock xdot2 (NQ + NU) NS ign p1) (\<lambda>xdot3.
        Inr (st\<lparr>m_xdot := xdot3,
                m_constraints := (m_constraints st)
                   \<lparr>residuals := res2, kinematic := o2\<rparr>\<rparr>))))))
      else
        Inr (st\<lparr>m_xdot := xdot2,
                m_constraints := (m_constraints st)
                   \<lparr>residuals := res1, kinematic := o2\<rparr>\<rparr>)))))))))"

definition transcribe_explicit ::
  "Problem \<Rightarrow> Transcription \<Rightarrow> failure + Transcription" where
  "transcribe_explicit P st =
     (let NQ = getNumCoordinates P; NU = getNumSpeeds P; NS = getNumStates P;
          inputs = [states, controls, multipliers, derivatives];
          dae = m_daeIndices st;
          ign = m_daeIndicesIgnoringConstraints st
      in
      andThen (evalOnTrajectory P st (getMultibodySystem P) inputs DaeIndices) (\<lambda>out.
      andThen (vecAt out 0) (\<lambda>o0.
      andThen (setBlock (m_xdot st) NQ (NQ + NU) dae o0) (\<lambda>xdot1.
      andThen (vecAt out 1) (\<lambda>o1.
      andThen (setBlock xdot1 (NQ + NU) NS dae o1) (\<lambda>xdot2.
      andThen (vecAt out 2) (\<lambda>o2.
      if m_numPointsIgnoringConstraints st \<noteq> 0
      then
        andThen (evalOnTrajectory P st (getMultibodySystemIgnoringConstraints P)
                   inputs DaeIndicesIgnoringConstraints) (\<lambda>out'.
        andThen (vecAt out' 0) (\<lambda>p0.
        andThen (setBlock xdot2 NQ (NQ + NU) ign p0) (\<lambda>xdot3.
        andThen (vecAt out' 1) (\<lambda>p1.
        andThen (setBlock xdot3 (NQ + NU) NS ign p1) (\<lambda>xdot4.
        Inr (st\<lparr>m_xdot := xdot4,
                m_constraints := (m_constraints st)\<lparr>kinematic := o2\<rparr>\<rparr>))))))
      else
        Inr (st\<lparr>m_xdot := xdot2,
                m_constraints := (m_constraints st)\<lparr>kinematic := o2\<rparr>\<rparr>))))))))"

text \<open>
  The loop over the path constraints: each is evaluated at the mesh points, and its
  bounds are repeated over the mesh points.
\<close>

definition pathConstraint ::
  "Problem \<Rightarrow> Transcription \<Rightarrow> PathConstraintInfo \<Rightarrow> failure + matrix \<times> matrix \<times> matrix" where
  "pathConstraint P st info =
     andThen (evalOnTrajectory P st (pc_function info)
                [states, controls, multipliers, derivatives] DaeIndices) (\<lambda>out.
     andThen (vecAt out 0) (\<lambda>o0.
     andThen (repmat (lowerBounds info) 1 (m_numMeshPoints st)) (\<lambda>lb.
     andThen (repmat (upperBounds info) 1 (m_numMeshPoints st)) (\<lambda>ub.
     Inr (o0, lb, ub)))))"

definition transcribe_path ::
  "Problem \<Rightarrow> Transcription \<Rightarrow> failure + Transcription" where
  "transcribe_path P st =
     andThen (forEach (pathConstraint P st) (getPathConstraintInfos P)) (\<lambda>rs.
     Inr (st\<lparr>m_constraints := (m_constraints st)\<lparr>path := map fst rs\<rparr>,
             m_constraintsLowerBounds := (m_constraintsLowerBounds st)
                \<lparr>path := map (fst \<circ> snd) rs\<rparr>,
             m_constraintsUpperBounds := (m_constraintsUpperBounds st)
                \<lparr>path := map (snd \<circ> snd) rs\<rparr>\<rparr>))"

definition transcribe ::
  "Solver \<Rightarrow> Problem \<Rightarrow> Scheme \<Rightarrow> Transcription \<Rightarrow> failure + Transcription" where
  "transcribe S P Sch st =
     andThen (setObjective S P Sch st) (\<lambda>st1.
     if getNumCoordinates P \<noteq> getNumSpeeds P
     then Inl (OpenSimException
       (''Problems with differing numbers of coordinates and speeds are ''
        @ ''not supported (e.g., quaternions).''))
     else
     andThen (transcribe_init S P st1) (\<lambda>st2.
     andThen (transcribe_qdot P st2) (\<lambda>st3.
     andThen (if isDynamicsModeImplicit S then transcribe_implicit P st3
              else transcribe_explicit P st3) (\<lambda>st4.
     andThen (calcDefects Sch st4) (\<lambda>d.
     transcribe_path P (st4\<lparr>m_constraints := (m_constraints st4)\<lparr>defects := d\<rparr>\<rparr>))))))"

text \<open>
  \<^verbatim>\<open>setObjective\<close> and \<^verbatim>\<open>transcribe\<close> write the members \<^verbatim>\<open>m_objective\<close>,
  \<^verbatim>\<open>m_xdot\<close>, \<^verbatim>\<open>m_constraints\<close> and the two tables of constraint bounds, and no
  other: \<open>modifies st st'\<close> says that the other members of \<open>st'\<close> are those of \<open>st\<close>.
\<close>

definition modifies :: "Transcription \<Rightarrow> Transcription \<Rightarrow> bool" where
  "modifies st st' =
     (m_vars st' = m_vars st \<and> m_times st' = m_times st
      \<and> m_paramsTrajGrid st' = m_paramsTrajGrid st \<and> m_paramsTraj st' = m_paramsTraj st
      \<and> m_paramsTrajIgnoringConstraints st' = m_paramsTrajIgnoringConstraints st
      \<and> m_gridIndices st' = m_gridIndices st \<and> m_daeIndices st' = m_daeIndices st
      \<and> m_daeIndicesIgnoringConstraints st' = m_daeIndicesIgnoringConstraints st
      \<and> m_numMeshPoints st' = m_numMeshPoints st \<and> m_numGridPoints st' = m_numGridPoints st
      \<and> m_numMeshIntervals st' = m_numMeshIntervals st
      \<and> m_numPointsIgnoringConstraints st' = m_numPointsIgnoringConstraints st
      \<and> m_numDefectsPerGridPoint st' = m_numDefectsPerGridPoint st
      \<and> m_numResiduals st' = m_numResiduals st \<and> m_numConstraints st' = m_numConstraints st
      \<and> m_grid st' = m_grid st \<and> m_duration st' = m_duration st
      \<and> m_lowerBounds st' = m_lowerBounds st \<and> m_upperBounds st' = m_upperBounds st
      \<and> m_kinematicConstraintIndices st' = m_kinematicConstraintIndices st)"

section \<open>The max-abs helper of the failure report\<close>

text \<open>
  \<^verbatim>\<open>calcL1Norm\<close> (a lambda of \<^verbatim>\<open>printConstraintValues\<close>): \<^verbatim>\<open>max\<close> starts as
  \<^verbatim>\<open>v(0)\<close>, which throws on an empty \<^verbatim>\<open>v\<close>; for \<^verbatim>\<open>i = 1 .. numel-1\<close>, when
  \<^verbatim>\<open>v(i) > max\<close> then \<^verbatim>\<open>max = abs(v(i))\<close> and \<^verbatim>\<open>argmax = i\<close>. The loop below takes
  the remaining entries, the index of the first of them and the pair
  \<^verbatim>\<open>(max, argmax)\<close>.
\<close>

fun calcL1Norm_loop :: "real list \<Rightarrow> nat \<Rightarrow> real \<times> nat \<Rightarrow> real \<times> nat" where
  "calcL1Norm_loop [] i (mx, argmax) = (mx, argmax)"
| "calcL1Norm_loop (x # xs) i (mx, argmax) =
     calcL1Norm_loop xs (Suc i) (if x > mx then (\<bar>x\<bar>, i) else (mx, argmax))"

definition calcL1Norm :: "matrix \<Rightarrow> failure + (real \<times> nat)" where
  "calcL1Norm v =
     andThen (at1 v 0) (\<lambda>x.
     Inr (calcL1Norm_loop (map (entLinear v) [1..<numel v]) 1 (x, 0)))"

section \<open>printConstraintValues\<close>

text \<open>
  The iterate and the solution (\<^verbatim>\<open>CasOC::Iterate\<close>, \<^verbatim>\<open>CasOC::Solution\<close>), and the
  values of the solver's statistics (\<^verbatim>\<open>casadi::GenericType\<close>).
\<close>

record Iterate =
  variables :: variables
  times :: matrix
  state_names :: "string list"
  control_names :: "string list"
  multiplier_names :: "string list"
  derivative_names :: "string list"
  slack_names :: "string list"
  parameter_names :: "string list"

datatype GenericType = GBool bool | GInt int | GDouble real | GString string

record Solution = Iterate +
  objective :: real
  stats :: "string \<rightharpoonup> GenericType"




























section \<open>solve\<close>















section \<open>A small instance\<close>

text \<open>
  An instance on which the properties below are exercised: a mesh of two points with
  one interior collocation point (the grid of a Hermite-Simpson scheme with one mesh
  interval), one coordinate, one speed, one control, one multiplier, one slack and one
  parameter. \<open>pointwise rs f\<close> is a CasADi function with outputs of \<open>rs\<close> rows
  that computes its output columns from its input columns by \<open>f\<close>; mapping it over no
  point at all is refused by CasADi.
\<close>

definition pointwise :: "nat list \<Rightarrow> (real list list \<Rightarrow> real list list) \<Rightarrow> casFunction" where
  "pointwise rs f =
     \<lparr>call = (\<lambda>ins. Inr (map (\<lambda>k. tabulate (rs ! k) 1
                              (\<lambda>i j. f (map (\<lambda>m. cols m ! 0) ins) ! k ! i))
                        [0..<length rs])),
      mapped = (\<lambda>n. if n = 0 then Inl CasadiException
                else Inr (\<lambda>ins. Inr (map (\<lambda>k. tabulate (rs ! k) n
                              (\<lambda>i j. f (map (\<lambda>m. cols m ! j) ins) ! k ! i))
                        [0..<length rs])))\<rparr>"

definition hsSolver :: Solver where
  "hsSolver = \<lparr>getMesh = [0, 1], isDynamicsModeImplicit = False,
     getMinimizeLagrangeMultipliers = True, getLagrangeMultiplierWeight = 1\<rparr>"

definition hsPath :: PathConstraintInfo where
  "hsPath = \<lparr>pc_name = ''sum'', pc_size = 1,
     lowerBounds = scalarM (- 100), upperBounds = scalarM 100,
     pc_function = pointwise [1] (\<lambda>ins. [[ins ! 1 ! 0 + ins ! 2 ! 0]])\<rparr>"

definition hsProblem :: Problem where
  "hsProblem = \<lparr>
     getNumCoordinates = 1, getNumSpeeds = 1, getNumStates = 2, getNumControls = 1,
     getNumMultipliers = 1, getNumDerivatives = 1, getNumSlacks = 1, getNumParameters = 1,
     getNumKinematicConstraintEquations = 1,
     getKinematicConstraintBounds = \<lparr>lower = 0, upper = 0\<rparr>,
     getPathConstraintInfos = [hsPath],
     getMultiplierNames = [''lambda''],
     getEnforceConstraintDerivatives = True,
     getVelocityCorrection = pointwise [1] (\<lambda>ins. [[2 * ins ! 2 ! 0]]),
     getMultibodySystem =
       pointwise [1, 0, 1] (\<lambda>ins. [[ins ! 2 ! 0], [], [ins ! 1 ! 0]]),
     getMultibodySystemIgnoringConstraints =
       pointwise [1, 0] (\<lambda>ins. [[ins ! 2 ! 0 + 1], []]),
     getImplicitMultibodySystem =
       pointwise [1, 0, 1] (\<lambda>ins. [[ins ! 4 ! 0 - ins ! 2 ! 0], [], [ins ! 1 ! 0]]),
     getImplicitMultibodySystemIgnoringConstraints =
       pointwise [1, 0] (\<lambda>ins. [[ins ! 4 ! 0 - ins ! 2 ! 0], []]),
     getIntegralCostIntegrand = pointwise [1] (\<lambda>ins. [[ins ! 2 ! 0 * ins ! 2 ! 0]]),
     getEndpointCost = pointwise [1] (\<lambda>ins. [[ins ! 1 ! 0]])\<rparr>"

definition hsScheme :: Scheme where
  "hsScheme = \<lparr>createQuadratureCoefficients = tabulate 3 1 (\<lambda>i j. [1/6, 2/3, 1/6] ! i),
     createKinematicConstraintIndices = rowvec [1, 0, 1],
     calcDefects = (\<lambda>st. zerosM (m_numDefectsPerGridPoint st) (m_numMeshIntervals st))\<rparr>"

definition hsSetBounds :: "variables \<times> variables \<Rightarrow> failure + variables \<times> variables" where
  "hsSetBounds tabs =
     Inr (map_option (mapM (\<lambda>x. - 50)) \<circ> fst tabs, map_option (mapM (\<lambda>x. 50)) \<circ> snd tabs)"

fun hsValuation :: valuation where
  "hsValuation initial_time i j = 0"
| "hsValuation final_time i j = 3"
| "hsValuation states i j = real (10 * i + j + 1)"
| "hsValuation controls i j = real (j + 2)"
| "hsValuation multipliers i j = real (j + 1)"
| "hsValuation derivatives i j = real (20 + j)"
| "hsValuation slacks i j = 7"
| "hsValuation parameters i j = 9"
| "hsValuation multibody_states i j = 0"

definition hsGrid :: matrix where
  "hsGrid = rowvec [0, 1/2, 1]"

definition hsBuild :: "valuation \<Rightarrow> failure + Transcription" where
  "hsBuild \<sigma> = createVariablesAndSetBounds \<sigma> hsSolver hsProblem hsScheme hsSetBounds hsGrid 4"

definition hsObject :: Transcription where
  "hsObject = projr (hsBuild hsValuation)"









text \<open>
  The object after \<^verbatim>\<open>transcribe\<close>, and the same instance in implicit dynamics mode.
\<close>

definition hsTranscribed :: Transcription where
  "hsTranscribed = projr (transcribe hsSolver hsProblem hsScheme hsObject)"

definition hsImplicitSolver :: Solver where
  "hsImplicitSolver = hsSolver\<lparr>isDynamicsModeImplicit := True\<rparr>"

definition hsImplicitObject :: Transcription where
  "hsImplicitObject =
     projr (createVariablesAndSetBounds hsValuation hsImplicitSolver hsProblem hsScheme
              hsSetBounds hsGrid 4)"

definition hsImplicitTranscribed :: Transcription where
  "hsImplicitTranscribed = projr (transcribe hsImplicitSolver hsProblem hsScheme hsImplicitObject)"

text \<open>
  The object of the instance after \<^verbatim>\<open>setObjective\<close>.
\<close>

definition hsWithObjective :: Transcription where
  "hsWithObjective = projr (setObjective hsSolver hsProblem hsScheme hsObject)"



section \<open>Properties\<close>

text \<open>
  C6. The claim: for every non-empty row \<open>v\<close>, \<open>calcL1Norm\<close> returns the maximum of
  \<open>\<bar>v(i)\<bar>\<close> and an index where it is attained. The code compares the signed entries
  and starts from the signed \<open>v(0)\<close>: on the row \<open>(-5, 3)\<close> it returns the value \<open>3\<close>
  at index \<open>1\<close>, while the largest absolute value is \<open>5\<close>, at index \<open>0\<close>.
\<close>

theorem calcL1Norm_signed_comparison:
  "calcL1Norm (rowvec [-5, 3]) = Inr (3, 1) \<and> Max (abs ` set [-5, 3 :: real]) = 5"
proof
  show "calcL1Norm (rowvec [-5, 3]) = Inr (3, 1)"
    by code_simp
  show "Max (abs ` set [-5, 3 :: real]) = 5"
    by simp
qed

subsection \<open>Sequencing and matrices\<close>

lemma andThen_Inr [simp]: "andThen (Inr x) f = f x"
  by (simp add: andThen_def)

lemma andThen_Inl [simp]: "andThen (Inl e) f = Inl e"
  by (simp add: andThen_def)

lemma andThen_eq_Inr: "andThen r f = Inr y \<longleftrightarrow> (\<exists>x. r = Inr x \<and> f x = Inr y)"
  by (cases r) auto

lemma andThenE:
  assumes "andThen r f = Inr y"
  obtains x where "r = Inr x" and "f x = Inr y"
  using assms by (auto simp: andThen_eq_Inr)

lemma Inr_projr: "\<not> isl r \<Longrightarrow> r = Inr (projr r)"
  by (cases r) auto

lemma size1_tabulate [simp]: "size1 (tabulate r c f) = r"
  by (simp add: tabulate_def)

lemma size2_tabulate [simp]: "size2 (tabulate r c f) = c"
  by (simp add: tabulate_def size2_def)

lemma ent_tabulate [simp]: "i < r \<Longrightarrow> j < c \<Longrightarrow> ent (tabulate r c f) i j = f i j"
  by (simp add: tabulate_def ent_def)

lemma numel_tabulate [simp]: "numel (tabulate r c f) = r * c"
  by (simp add: numel_def)

lemma scalarM_simps [simp]:
  "size1 (scalarM x) = 1" "size2 (scalarM x) = 1" "ent (scalarM x) 0 0 = x"
  by (simp_all add: scalarM_def size2_def ent_def)

lemma tabulate_scalarM: "tabulate (Suc 0) (Suc 0) f = scalarM (f 0 0)"
  by (simp add: tabulate_def scalarM_def)

lemma constM_Inr:
  assumes "constM x r c = Inr m"
  shows "m = tabulate (nat r) (nat c) (\<lambda>i j. x)" and "0 \<le> r" and "0 \<le> c"
  using assms by (auto simp: constM_def split: if_splits)

lemma lastPos_nth: "j \<in> set idx \<Longrightarrow> idx ! lastPos idx j = j \<and> lastPos idx j < length idx"
  by (induction idx) auto

lemma lastPos_distinct: "distinct idx \<Longrightarrow> k < length idx \<Longrightarrow> lastPos idx (idx ! k) = k"
proof (induction idx arbitrary: k)
  case Nil
  then show ?case by simp
next
  case (Cons x xs)
  show ?case
  proof (cases k)
    case 0
    with Cons.prems show ?thesis by simp
  next
    case (Suc k')
    with Cons show ?thesis by auto
  qed
qed

lemma setBlock_Inr:
  assumes "setBlock m a b idx B = Inr m'"
  shows "m' = tabulate (size1 m) (size2 m)
                  (\<lambda>i j. if a \<le> i \<and> i < b \<and> j \<in> set idx
                         then ent B (i - a) (lastPos idx j) else ent m i j)"
    and "b \<le> size1 m" and "\<forall>j\<in>set idx. j < size2 m"
    and "size1 B = b - a" and "size2 B = length idx"
  using assms
  by (auto simp: setBlock_def list_all_iff split: if_splits)

lemma getRows_Inr:
  assumes "getRows m a b = Inr r"
  shows "r = tabulate (b - a) (size2 m) (\<lambda>i j. ent m (a + i) j)" and "b \<le> size1 m"
  using assms by (auto simp: getRows_def split: if_splits)

lemma getCols_Inr:
  assumes "getCols m idx = Inr r"
  shows "r = tabulate (size1 m) (length idx) (\<lambda>i k. ent m i (idx ! k))"
    and "\<forall>j\<in>set idx. j < size2 m"
  using assms by (auto simp: getCols_def list_all_iff split: if_splits)

lemma MXsym_Inr:
  assumes "MXsym \<sigma> v r c = Inr m"
  shows "m = tabulate (nat r) (nat c) (\<sigma> v)" and "0 \<le> r" and "0 \<le> c"
  using assms by (auto simp: MXsym_def split: if_splits)

subsection \<open>The object made by createVariablesAndSetBounds\<close>


lemma createVariablesAndSetBounds_Inr:
  assumes "createVariablesAndSetBounds \<sigma> S P Sch setBounds grid Nd = Inr st"
  shows "\<exists>vars t0 tf dae ign.
      createVariables \<sigma> P (int (numel grid)) (int (numel grid) - int (length (getMesh S)))
        = Inr vars
    \<and> varAt vars initial_time = Inr t0 \<and> varAt vars final_time = Inr tf
    \<and> splitIndices (createKinematicConstraintIndices Sch)
          [0..<size2 (createKinematicConstraintIndices Sch)] = Inr (dae, ign)
    \<and> minusM tf t0 = Inr (m_duration st)
    \<and> createTimes grid t0 tf = Inr (m_times st)
    \<and> repmat (varGet vars parameters) 1 (int (numel grid)) = Inr (m_paramsTrajGrid st)
    \<and> repmat (varGet vars parameters) 1 (int (length (getMesh S))) = Inr (m_paramsTraj st)
    \<and> repmat (varGet vars parameters) 1 (int (numel grid) - int (length (getMesh S)))
         = Inr (m_paramsTrajIgnoringConstraints st)
    \<and> m_vars st = vars \<and> m_daeIndices st = dae \<and> m_daeIndicesIgnoringConstraints st = ign
    \<and> m_gridIndices st = [0..<numel grid]
    \<and> m_numMeshPoints st = int (length (getMesh S))
    \<and> m_numGridPoints st = int (numel grid)
    \<and> m_numMeshIntervals st = int (length (getMesh S)) - 1
    \<and> m_numPointsIgnoringConstraints st = int (numel grid) - int (length (getMesh S))
    \<and> m_numDefectsPerGridPoint st = Nd
    \<and> m_numResiduals st = (if isDynamicsModeImplicit S then int (getNumSpeeds P) else 0)
    \<and> m_numConstraints st =
         addPathConstraintCounts (getPathConstraintInfos P) (int (length (getMesh S)))
           (Nd * (int (length (getMesh S)) - 1)
            + (if isDynamicsModeImplicit S then int (getNumSpeeds P) else 0) * int (numel grid)
            + int (getNumKinematicConstraintEquations P) * int (length (getMesh S)))
    \<and> m_grid st = grid"
  using assms unfolding createVariablesAndSetBounds_def Let_def
  apply (elim andThenE)
  apply (simp split: prod.splits)
  apply (elim andThenE)
  apply (auto simp: varGet_def varAt_def split: option.splits)
  done

lemma hsBuild_hsObject: "hsBuild hsValuation = Inr hsObject"
proof -
  have "\<not> isl (hsBuild hsValuation)"
    by code_simp
  then show ?thesis
    unfolding hsObject_def by (rule Inr_projr)
qed




subsection \<open>evalOnTrajectory\<close>

lemma trajInput_not_OpenSimException: "trajInput P st idx v \<noteq> Inl (OpenSimException msg)"
  by (auto simp: trajInput_def varAt_def getBlock_def getRows_def getCols_def andThen_def
      split: option.splits sum.splits)

lemma forEach_not_OpenSimException:
  assumes "\<And>x. f x \<noteq> Inl (OpenSimException msg)"
  shows "forEach f xs \<noteq> Inl (OpenSimException msg)"
proof (induction xs)
  case Nil
  show ?case by simp
next
  case (Cons x xs)
  with assms [of x] show ?case
    by (cases "f x"; cases "forEach f xs") auto
qed

text \<open>
  C5, as the code has it. The claim lets an index vector \<^emph>\<open>equal in value\<close> to one of
  the three canonical vectors pass; the code compares addresses. When mapping the
  function and slicing the inputs succeed, \<^verbatim>\<open>evalOnTrajectory\<close> calls the mapped
  function with the grid-wide, mesh-wide or interior-wide parameters block when it is
  given the member \<^verbatim>\<open>m_gridIndices\<close>, \<^verbatim>\<open>m_daeIndices\<close> or
  \<^verbatim>\<open>m_daeIndicesIgnoringConstraints\<close> itself, and throws the internal error when it
  is given any other index vector, whatever its value; and the internal error arises
  exactly for the references that are none of the three members.
\<close>

theorem evalOnTrajectory_compares_addresses:
  assumes "mapped f (length (deref st timeIndices)) = Inr trajFunc"
    and "getCols (m_times st) (deref st timeIndices) = Inr t"
    and "forEach (trajInput P st (deref st timeIndices)) inputs = Inr ins"
  shows "evalOnTrajectory P st f inputs timeIndices =
           (case timeIndices of
              GridIndices \<Rightarrow> trajFunc (t # ins @ [m_paramsTrajGrid st])
            | DaeIndices \<Rightarrow> trajFunc (t # ins @ [m_paramsTraj st])
            | DaeIndicesIgnoringConstraints \<Rightarrow>
                trajFunc (t # ins @ [m_paramsTrajIgnoringConstraints st])
            | OtherIndices v \<Rightarrow> Inl (OpenSimException ''Internal error.''))
       \<and> (evalOnTrajectory_mxIn P st inputs timeIndices
             = Inl (OpenSimException ''Internal error.'')
            \<longleftrightarrow> timeIndices \<notin> {GridIndices, DaeIndices, DaeIndicesIgnoringConstraints})"
  using assms
  by (cases timeIndices) (simp_all add: evalOnTrajectory_def evalOnTrajectory_mxIn_def)

text \<open>
  C5, the claim as stated fails: on the instance, \<^verbatim>\<open>m_gridIndices\<close> is \<open>(0, 1, 2)\<close>;
  a copy of it is refused with the internal error, while the member itself is accepted.
\<close>

theorem evalOnTrajectory_copy_of_gridIndices:
  "\<not> isl (hsBuild hsValuation)
   \<and> m_gridIndices hsObject = [0, 1, 2]
   \<and> evalOnTrajectory hsProblem hsObject (getIntegralCostIntegrand hsProblem)
        [states, controls, multipliers, derivatives] (OtherIndices [0, 1, 2])
       = Inl (OpenSimException ''Internal error.'')
   \<and> evalOnTrajectory hsProblem hsObject (getIntegralCostIntegrand hsProblem)
        [states, controls, multipliers, derivatives] GridIndices
       = Inr [rowvec [4, 9, 16]]"
  by code_simp

theorem evalOnTrajectory_compares_addresses_witness:
  "evalOnTrajectory hsProblem hsObject (getVelocityCorrection hsProblem)
     [multibody_states, slacks] DaeIndicesIgnoringConstraints = Inr [rowvec [14]]
   \<and> evalOnTrajectory_mxIn hsProblem hsObject [multibody_states, slacks]
        DaeIndicesIgnoringConstraints \<noteq> Inl (OpenSimException ''Internal error.'')"
proof -
  let ?f = "getVelocityCorrection hsProblem"
  let ?idx = "deref hsObject DaeIndicesIgnoringConstraints"
  let ?m = "mapped ?f (length ?idx)"
  let ?t = "getCols (m_times hsObject) ?idx"
  let ?ins = "forEach (trajInput hsProblem hsObject ?idx) [multibody_states, slacks]"
  have "\<not> isl ?m" by code_simp
  then have 1: "?m = Inr (projr ?m)" by (rule Inr_projr)
  have "\<not> isl ?t" by code_simp
  then have 2: "?t = Inr (projr ?t)" by (rule Inr_projr)
  have "\<not> isl ?ins" by code_simp
  then have 3: "?ins = Inr (projr ?ins)" by (rule Inr_projr)
  have 4: "projr ?m (projr ?t # projr ?ins @ [m_paramsTrajIgnoringConstraints hsObject])
             = Inr [rowvec [14]]"
    by code_simp
  from evalOnTrajectory_compares_addresses [OF 1 2 3] 4 show ?thesis
    by simp
qed

subsection \<open>The frame and the phases of transcribe\<close>

lemma modifies_refl [simp]: "modifies st st"
  by (simp add: modifies_def)

lemma modifies_trans: "modifies a b \<Longrightarrow> modifies b c \<Longrightarrow> modifies a c"
  by (simp add: modifies_def)

lemma modifies_updates [simp]:
  "modifies st (st'\<lparr>m_xdot := x\<rparr>) = modifies st st'"
  "modifies st (st'\<lparr>m_objective := ob\<rparr>) = modifies st st'"
  "modifies st (st'\<lparr>m_constraints := c\<rparr>) = modifies st st'"
  "modifies st (st'\<lparr>m_constraintsLowerBounds := cl\<rparr>) = modifies st st'"
  "modifies st (st'\<lparr>m_constraintsUpperBounds := cu\<rparr>) = modifies st st'"
  by (simp_all add: modifies_def)

lemma evalOnTrajectory_modifies:
  assumes "modifies st st'"
  shows "evalOnTrajectory P st' f inputs r = evalOnTrajectory P st f inputs r"
proof -
  from assms have d: "deref st' r = deref st r"
    by (cases r) (simp_all add: modifies_def)
  from assms have t: "trajInput P st' (deref st r) = trajInput P st (deref st r)"
    by (intro ext) (simp add: trajInput_def modifies_def)
  from assms d t show ?thesis
    by (cases r) (simp_all add: evalOnTrajectory_def evalOnTrajectory_mxIn_def modifies_def)
qed

lemma constM_eq_Inr:
  "constM x r c = Inr m \<longleftrightarrow> 0 \<le> r \<and> 0 \<le> c \<and> m = tabulate (nat r) (nat c) (\<lambda>i j. x)"
  by (auto simp: constM_def)

lemma setObjective_modifies:
  assumes "setObjective S P Sch st = Inr st'"
  shows "modifies st st' \<and> m_xdot st' = m_xdot st \<and> m_constraints st' = m_constraints st
    \<and> m_constraintsLowerBounds st' = m_constraintsLowerBounds st
    \<and> m_constraintsUpperBounds st' = m_constraintsUpperBounds st"
  using assms unfolding setObjective_def Let_def
  by (auto elim!: andThenE)

lemma transcribe_init_Inr:
  assumes "transcribe_init S P st = Inr st'"
  shows "modifies st st'"
    and "m_xdot st' = tabulate (getNumStates P) (nat (m_numGridPoints st)) (\<lambda>i j. 0)"
    and "0 \<le> m_numGridPoints st"
    and "isDynamicsModeImplicit S \<Longrightarrow>
           residuals (m_constraints st')
             = tabulate (nat (m_numResiduals st)) (nat (m_numGridPoints st)) (\<lambda>i j. 1)
         \<and> residuals (m_constraintsLowerBounds st')
             = tabulate (nat (m_numResiduals st)) (nat (m_numGridPoints st)) (\<lambda>i j. 0)
         \<and> residuals (m_constraintsUpperBounds st')
             = tabulate (nat (m_numResiduals st)) (nat (m_numGridPoints st)) (\<lambda>i j. 0)
         \<and> 0 \<le> m_numResiduals st"
  using assms unfolding transcribe_init_def Let_def zerosM_def denseM_def
  by (auto elim!: andThenE simp: constM_eq_Inr split: if_splits prod.splits)

lemma setBlock_eq_Inr:
  "setBlock m a b idx B = Inr m' \<longleftrightarrow>
     b \<le> size1 m \<and> (\<forall>j\<in>set idx. j < size2 m) \<and> size1 B = b - a \<and> size2 B = length idx
     \<and> m' = tabulate (size1 m) (size2 m)
                  (\<lambda>i j. if a \<le> i \<and> i < b \<and> j \<in> set idx
                         then ent B (i - a) (lastPos idx j) else ent m i j)"
  by (auto simp: setBlock_def list_all_iff)

lemma getRows_eq_Inr:
  "getRows m a b = Inr r \<longleftrightarrow>
     b \<le> size1 m \<and> r = tabulate (b - a) (size2 m) (\<lambda>i j. ent m (a + i) j)"
  by (auto simp: getRows_def)

lemma getCols_eq_Inr:
  "getCols m idx = Inr r \<longleftrightarrow>
     (\<forall>j\<in>set idx. j < size2 m)
     \<and> r = tabulate (size1 m) (length idx) (\<lambda>i k. ent m i (idx ! k))"
  by (auto simp: getCols_def list_all_iff)

lemma vecAt_eq_Inr: "vecAt v i = Inr x \<longleftrightarrow> i < length v \<and> x = v ! i"
  by (auto simp: vecAt_def)

lemma vecAt_0_Inr: "vecAt v 0 = Inr x \<Longrightarrow> \<exists>rest. v = x # rest"
  by (cases v) (auto simp: vecAt_def)

lemma plusM_ent:
  assumes "plusM A B = Inr C" and "size1 C = size1 A" and "size2 C = size2 A"
    and "i < size1 A" and "j < size2 A"
  shows "ent C i j = ent A i j + (if isScalar B then ent B 0 0 else ent B i j)"
  using assms
  by (auto simp: plusM_def binaryM_def mapM_def isScalar_def split: if_splits)

lemma plusM_shape:
  assumes "plusM A B = Inr C"
  shows "(size1 C = size1 A \<and> size2 C = size2 A) \<or> (size1 C = size1 B \<and> size2 C = size2 B)"
  using assms
  by (auto simp: plusM_def binaryM_def mapM_def isScalar_def split: if_splits)

lemma addBlock_Inr:
  assumes "addBlock m a b idx B = Inr m'"
  shows "size1 m' = size1 m" and "size2 m' = size2 m" and "\<forall>j\<in>set idx. j < size2 m"
    and "b \<le> size1 m"
    and "\<And>i j. i < size1 m \<Longrightarrow> j < size2 m \<Longrightarrow>
           ent m' i j =
             (if a \<le> i \<and> i < b \<and> j \<in> set idx
              then ent m i j
                   + (if isScalar B then ent B 0 0 else ent B (i - a) (lastPos idx j))
              else ent m i j)"
proof -
  from assms obtain r cur s where r: "getRows m a b = Inr r" and cur: "getCols r idx = Inr cur"
    and s: "plusM cur B = Inr s" and m': "setBlock m a b idx s = Inr m'"
    by (auto simp: addBlock_def getBlock_def elim!: andThenE)
  from r have b: "b \<le> size1 m" and r': "r = tabulate (b - a) (size2 m) (\<lambda>i j. ent m (a + i) j)"
    by (simp_all add: getRows_eq_Inr)
  from cur r' have idx: "\<forall>j\<in>set idx. j < size2 m"
    and cur': "cur = tabulate (b - a) (length idx) (\<lambda>i k. ent r i (idx ! k))"
    by (simp_all add: getCols_eq_Inr)
  from m' have sh: "size1 s = b - a" "size2 s = length idx"
    and m'': "m' = tabulate (size1 m) (size2 m)
                  (\<lambda>i j. if a \<le> i \<and> i < b \<and> j \<in> set idx
                         then ent s (i - a) (lastPos idx j) else ent m i j)"
    by (simp_all add: setBlock_eq_Inr)
  show "size1 m' = size1 m" "size2 m' = size2 m" using m'' by simp_all
  show "\<forall>j\<in>set idx. j < size2 m" by (rule idx)
  show "b \<le> size1 m" by (rule b)
  fix i j
  assume i: "i < size1 m" and j: "j < size2 m"
  show "ent m' i j =
             (if a \<le> i \<and> i < b \<and> j \<in> set idx
              then ent m i j
                   + (if isScalar B then ent B 0 0 else ent B (i - a) (lastPos idx j))
              else ent m i j)"
  proof (cases "a \<le> i \<and> i < b \<and> j \<in> set idx")
    case False
    with i j m'' show ?thesis by auto
  next
    case True
    then have k: "idx ! lastPos idx j = j" "lastPos idx j < length idx"
      using lastPos_nth [of j idx] by simp_all
    from True have ia: "i - a < b - a" by arith
    have "ent s (i - a) (lastPos idx j)
            = ent cur (i - a) (lastPos idx j)
              + (if isScalar B then ent B 0 0 else ent B (i - a) (lastPos idx j))"
      using s sh ia k(2) cur' by (intro plusM_ent) simp_all
    moreover have "ent cur (i - a) (lastPos idx j) = ent m i j"
      using cur' r' ia k j True by simp
    ultimately show ?thesis
      using True i j m'' by simp
  qed
qed

lemma transcribe_qdot_Inr:
  assumes q: "transcribe_qdot P st = Inr st'"
    and xd: "m_xdot st = tabulate (getNumStates P) G (\<lambda>i j. 0)"
  shows "modifies st st' \<and> m_constraints st' = m_constraints st
      \<and> m_constraintsLowerBounds st' = m_constraintsLowerBounds st
      \<and> m_constraintsUpperBounds st' = m_constraintsUpperBounds st
      \<and> size1 (m_xdot st') = getNumStates P \<and> size2 (m_xdot st') = G
      \<and> getNumCoordinates P \<le> getNumStates P
      \<and> ((getEnforceConstraintDerivatives P \<and> m_numPointsIgnoringConstraints st \<noteq> 0)
          \<longrightarrow> (\<forall>j\<in>set (m_daeIndicesIgnoringConstraints st). j < G))
      \<and> ((getEnforceConstraintDerivatives P \<and> m_numPointsIgnoringConstraints st \<noteq> 0)
          \<longrightarrow> (\<exists>uCorr rest.
                 evalOnTrajectory P st (getVelocityCorrection P) [multibody_states, slacks]
                   DaeIndicesIgnoringConstraints = Inr (uCorr # rest)
               \<and> (\<forall>i<getNumCoordinates P. \<forall>j<G.
                     ent (m_xdot st') i j =
                       ent (varGet (m_vars st) states) (getNumCoordinates P + i) j
                       + (if j \<in> set (m_daeIndicesIgnoringConstraints st)
                          then (if isScalar uCorr then ent uCorr 0 0
                                else ent uCorr i (lastPos (m_daeIndicesIgnoringConstraints st) j))
                          else 0))))
      \<and> (\<not> (getEnforceConstraintDerivatives P \<and> m_numPointsIgnoringConstraints st \<noteq> 0)
          \<longrightarrow> (\<forall>i<getNumCoordinates P. \<forall>j<G.
                 ent (m_xdot st') i j
                   = ent (varGet (m_vars st) states) (getNumCoordinates P + i) j))"
proof -
  let ?NQ = "getNumCoordinates P" and ?NU = "getNumSpeeds P"
  let ?X = "varGet (m_vars st) states"
  let ?ign = "m_daeIndicesIgnoringConstraints st"
  from q obtain u xdot where u: "getRows ?X ?NQ (?NQ + ?NU) = Inr u"
    and xdot: "setBlock (m_xdot st) 0 ?NQ (allCols (m_xdot st)) u = Inr xdot"
    and rest: "(if getEnforceConstraintDerivatives P \<and> m_numPointsIgnoringConstraints st \<noteq> 0
      then
        andThen (evalOnTrajectory P st (getVelocityCorrection P)
                   [multibody_states, slacks] DaeIndicesIgnoringConstraints)
          (\<lambda>velocityCorrOut.
        andThen (vecAt velocityCorrOut 0) (\<lambda>uCorr.
        andThen (addBlock xdot 0 ?NQ ?ign uCorr) (\<lambda>xdot'.
        Inr (st\<lparr>m_xdot := xdot'\<rparr>))))
      else Inr (st\<lparr>m_xdot := xdot\<rparr>)) = Inr st'"
    unfolding transcribe_qdot_def Let_def by (auto elim!: andThenE)
  from u have u': "u = tabulate (?NQ + ?NU - ?NQ) (size2 ?X) (\<lambda>i j. ent ?X (?NQ + i) j)"
    by (simp add: getRows_eq_Inr)
  from xdot xd have "setBlock (tabulate (getNumStates P) G (\<lambda>i j. 0)) 0 ?NQ [0..<G] u = Inr xdot"
    by (simp add: allCols_def)
  then have NQ: "?NQ \<le> getNumStates P" and su: "size1 u = ?NQ" "size2 u = G"
    and xdot': "xdot = tabulate (getNumStates P) G
                  (\<lambda>i j. if 0 \<le> i \<and> i < ?NQ \<and> j \<in> set [0..<G]
                         then ent u (i - 0) (lastPos [0..<G] j)
                         else ent (tabulate (getNumStates P) G (\<lambda>i j. 0)) i j)"
    by (simp_all add: setBlock_eq_Inr)
  have lp: "lastPos [0..<G] j = j" if "j < G" for j
    using lastPos_distinct [of "[0..<G]" j] that by simp
  from su u' have sX: "size2 ?X = G" and NU: "?NU = ?NQ"
    by simp_all
  have base: "ent xdot i j = ent ?X (?NQ + i) j" if "i < ?NQ" "j < G" for i j
    using that xdot' u' NQ sX NU lp by simp
  have sh: "size1 xdot = getNumStates P" "size2 xdot = G"
    using xdot' by simp_all
  show ?thesis
  proof (cases "getEnforceConstraintDerivatives P \<and> m_numPointsIgnoringConstraints st \<noteq> 0")
    case False
    with rest have "st' = st\<lparr>m_xdot := xdot\<rparr>" by simp
    with False base sh NQ show ?thesis by auto
  next
    case True
    with rest obtain out uCorr xdot2
      where out: "evalOnTrajectory P st (getVelocityCorrection P)
                   [multibody_states, slacks] DaeIndicesIgnoringConstraints = Inr out"
        and uc: "vecAt out 0 = Inr uCorr"
        and ab: "addBlock xdot 0 ?NQ ?ign uCorr = Inr xdot2"
        and st': "st' = st\<lparr>m_xdot := xdot2\<rparr>"
      by (auto elim!: andThenE)
    from uc obtain rest' where o: "out = uCorr # rest'"
      by (auto dest: vecAt_0_Inr)
    have e: "ent xdot2 i j = ent ?X (?NQ + i) j
                       + (if j \<in> set ?ign
                          then (if isScalar uCorr then ent uCorr 0 0
                                else ent uCorr i (lastPos ?ign j))
                          else 0)" if "i < ?NQ" "j < G" for i j
      using addBlock_Inr(5) [OF ab, of i j] that sh NQ base by simp
    from addBlock_Inr(1,2) [OF ab] sh have "size1 xdot2 = getNumStates P" "size2 xdot2 = G"
      by simp_all
    moreover from addBlock_Inr(3) [OF ab] sh have "\<forall>j\<in>set ?ign. j < G"
      by simp
    ultimately show ?thesis
      using True st' out o e NQ by simp
  qed
qed

lemma splitIndices_Inr:
  "splitIndices kin xs = Inr (dae, ign) \<Longrightarrow>
     dae = filter (\<lambda>i. entLinear kin i = 1) xs \<and> ign = filter (\<lambda>i. entLinear kin i \<noteq> 1) xs
     \<and> (\<forall>i\<in>set xs. i < numel kin)"
proof (induction xs arbitrary: dae ign)
  case Nil
  then show ?case by simp
next
  case (Cons i rest)
  from Cons.prems obtain x d g where x: "at1 kin i = Inr x"
    and r: "splitIndices kin rest = Inr (d, g)"
    and e: "(dae, ign) = (if x = 1 then (i # d, g) else (d, i # g))"
    by (auto elim!: andThenE split: prod.splits)
  from x have xi: "i < numel kin" "x = entLinear kin i"
    by (auto simp: at1_def split: if_splits)
  from Cons.IH [OF r] e xi show ?case
    by (auto split: if_splits)
qed

lemma splitIndices_upt:
  assumes "splitIndices kin [0..<n] = Inr (dae, ign)"
  shows "distinct dae" "distinct ign" "set dae \<inter> set ign = {}"
    "set dae \<union> set ign = {0..<n}" "sorted_wrt (<) dae" "sorted_wrt (<) ign"
    "length dae + length ign = n"
proof -
  from splitIndices_Inr [OF assms]
  have d: "dae = filter (\<lambda>i. entLinear kin i = 1) [0..<n]"
    and g: "ign = filter (\<lambda>i. entLinear kin i \<noteq> 1) [0..<n]"
    by simp_all
  show "distinct dae" "distinct ign" using d g by simp_all
  show "set dae \<inter> set ign = {}" using d g by auto
  show "set dae \<union> set ign = {0..<n}" using d g by auto
  have s: "sorted_wrt (<) [0..<n]" by (simp add: sorted_wrt_upt)
  show "sorted_wrt (<) dae" unfolding d by (rule sorted_wrt_filter [OF s])
  show "sorted_wrt (<) ign" unfolding g by (rule sorted_wrt_filter [OF s])
  show "length dae + length ign = n"
    unfolding d g using sum_length_filter_compl [of "\<lambda>i. entLinear kin i = 1" "[0..<n]"]
    by simp
qed

lemma vecAt_eq_Inr_nth:
  "vecAt v 2 = Inr x \<Longrightarrow> \<exists>a b rest. v = a # b # x # rest"
  "vecAt v 1 = Inr y \<Longrightarrow> \<exists>a rest. v = a # y # rest"
  by (cases v; cases "tl v"; cases "tl (tl v)"; auto simp: vecAt_def)+

lemma upt_lastPos [simp]: "j < n \<Longrightarrow> lastPos [0..<n] j = j"
  using lastPos_distinct [of "[0..<n]" j] by simp

lemma transcribe_implicit_Inr:
  assumes t: "transcribe_implicit P st = Inr st'"
    and s1: "size1 (m_xdot st) = getNumStates P" and s2: "size2 (m_xdot st) = G"
  shows "modifies st st'
      \<and> m_constraintsLowerBounds st' = m_constraintsLowerBounds st
      \<and> m_constraintsUpperBounds st' = m_constraintsUpperBounds st
      \<and> size1 (m_xdot st') = getNumStates P \<and> size2 (m_xdot st') = G
      \<and> size1 (residuals (m_constraints st')) = size1 (residuals (m_constraints st))
      \<and> size2 (residuals (m_constraints st')) = size2 (residuals (m_constraints st))
      \<and> (\<forall>j\<in>set (m_daeIndices st). j < G)
      \<and> (\<forall>i<getNumCoordinates P. \<forall>j<G. ent (m_xdot st') i j = ent (m_xdot st) i j)
      \<and> (\<forall>i<getNumSpeeds P. \<forall>j<G.
            ent (m_xdot st') (getNumCoordinates P + i) j
              = ent (varGet (m_vars st) derivatives) i j)"
proof -
  let ?NQ = "getNumCoordinates P" and ?NU = "getNumSpeeds P" and ?NS = "getNumStates P"
  let ?w = "varGet (m_vars st) derivatives"
  let ?dae = "m_daeIndices st" and ?ign = "m_daeIndicesIgnoringConstraints st"
  let ?res = "residuals (m_constraints st)"
  from t obtain xdot1 o0 res1 o1 xdot2 o2
    where x1: "setBlock (m_xdot st) ?NQ (?NQ + ?NU) (allCols (m_xdot st)) ?w = Inr xdot1"
      and r1: "setBlock ?res 0 (size1 ?res) ?dae o0 = Inr res1"
      and x2: "setBlock xdot1 (?NQ + ?NU) ?NS ?dae o1 = Inr xdot2"
      and rest: "(if m_numPointsIgnoringConstraints st \<noteq> 0
      then
        andThen (evalOnTrajectory P st (getImplicitMultibodySystemIgnoringConstraints P)
                   [states, controls, multipliers, derivatives]
                   DaeIndicesIgnoringConstraints) (\<lambda>out'.
        andThen (vecAt out' 0) (\<lambda>p0.
        andThen (setBlock res1 0 (size1 res1) ?ign p0) (\<lambda>res2.
        andThen (vecAt out' 1) (\<lambda>p1.
        andThen (setBlock xdot2 (?NQ + ?NU) ?NS ?ign p1) (\<lambda>xdot3.
        Inr (st\<lparr>m_xdot := xdot3,
                m_constraints := (m_constraints st)
                   \<lparr>residuals := res2, kinematic := o2\<rparr>\<rparr>))))))
      else
        Inr (st\<lparr>m_xdot := xdot2,
                m_constraints := (m_constraints st)
                   \<lparr>residuals := res1, kinematic := o2\<rparr>\<rparr>)) = Inr st'"
    unfolding transcribe_implicit_def Let_def by (auto elim!: andThenE)
  from x1 s1 s2 have b1: "?NQ + ?NU \<le> ?NS"
    and sh1: "size1 xdot1 = ?NS" "size2 xdot1 = G"
    and e1: "\<And>i j. i < ?NS \<Longrightarrow> j < G \<Longrightarrow>
               ent xdot1 i j = (if ?NQ \<le> i \<and> i < ?NQ + ?NU then ent ?w (i - ?NQ) j
                                else ent (m_xdot st) i j)"
    by (auto simp: setBlock_eq_Inr allCols_def)
  from x2 sh1 b1 have dae: "\<forall>j\<in>set ?dae. j < G"
    and sh2: "size1 xdot2 = ?NS" "size2 xdot2 = G"
    and e2: "\<And>i j. i < ?NQ + ?NU \<Longrightarrow> j < G \<Longrightarrow> ent xdot2 i j = ent xdot1 i j"
    by (auto simp: setBlock_eq_Inr)
  from r1 have shr: "size1 res1 = size1 ?res" "size2 res1 = size2 ?res"
    by (auto simp: setBlock_eq_Inr)
  show ?thesis
  proof (cases "m_numPointsIgnoringConstraints st \<noteq> 0")
    case False
    with rest have "st' = st\<lparr>m_xdot := xdot2,
                m_constraints := (m_constraints st)\<lparr>residuals := res1, kinematic := o2\<rparr>\<rparr>"
      by simp
    with sh2 shr dae e1 e2 b1 show ?thesis
      by simp
  next
    case True
    with rest obtain p0 res2 p1 xdot3
      where r2: "setBlock res1 0 (size1 res1) ?ign p0 = Inr res2"
        and x3: "setBlock xdot2 (?NQ + ?NU) ?NS ?ign p1 = Inr xdot3"
        and st': "st' = st\<lparr>m_xdot := xdot3,
                m_constraints := (m_constraints st)\<lparr>residuals := res2, kinematic := o2\<rparr>\<rparr>"
      by (auto elim!: andThenE)
    from x3 sh2 b1 have sh3: "size1 xdot3 = ?NS" "size2 xdot3 = G"
      and e3: "\<And>i j. i < ?NQ + ?NU \<Longrightarrow> j < G \<Longrightarrow> ent xdot3 i j = ent xdot2 i j"
      by (auto simp: setBlock_eq_Inr)
    from r2 shr have shr2: "size1 res2 = size1 ?res" "size2 res2 = size2 ?res"
      by (auto simp: setBlock_eq_Inr)
    from st' sh3 shr2 dae e1 e2 e3 b1 show ?thesis
      by simp
  qed
qed

lemma setBlock_ent:
  assumes "setBlock m a b idx B = Inr m'"
  shows "size1 m' = size1 m" and "size2 m' = size2 m" and "b \<le> size1 m"
    and "\<forall>j\<in>set idx. j < size2 m"
    and "\<And>i j. i < size1 m \<Longrightarrow> j < size2 m \<Longrightarrow>
           ent m' i j = (if a \<le> i \<and> i < b \<and> j \<in> set idx
                         then ent B (i - a) (lastPos idx j) else ent m i j)"
  using assms by (auto simp: setBlock_eq_Inr)

lemma transcribe_explicit_Inr:
  assumes t: "transcribe_explicit P st = Inr st'"
    and s1: "size1 (m_xdot st) = getNumStates P" and s2: "size2 (m_xdot st) = G"
    and dis: "set (m_daeIndices st) \<inter> set (m_daeIndicesIgnoringConstraints st) = {}"
    and dd: "distinct (m_daeIndices st)"
    and di: "distinct (m_daeIndicesIgnoringConstraints st)"
  shows "modifies st st'
      \<and> m_constraintsLowerBounds st' = m_constraintsLowerBounds st
      \<and> m_constraintsUpperBounds st' = m_constraintsUpperBounds st
      \<and> size1 (m_xdot st') = getNumStates P \<and> size2 (m_xdot st') = G
      \<and> residuals (m_constraints st') = residuals (m_constraints st)
      \<and> (\<forall>j\<in>set (m_daeIndices st). j < G)
      \<and> (\<forall>i<getNumCoordinates P. \<forall>j<G. ent (m_xdot st') i j = ent (m_xdot st) i j)
      \<and> (\<exists>udot zdot kcerr rest.
            evalOnTrajectory P st (getMultibodySystem P)
              [states, controls, multipliers, derivatives] DaeIndices
              = Inr (udot # zdot # kcerr # rest)
          \<and> (\<forall>k<length (m_daeIndices st).
                (\<forall>i<getNumSpeeds P.
                   ent (m_xdot st') (getNumCoordinates P + i) (m_daeIndices st ! k)
                     = ent udot i k)
              \<and> (\<forall>i. getNumCoordinates P + getNumSpeeds P + i < getNumStates P \<longrightarrow>
                   ent (m_xdot st') (getNumCoordinates P + getNumSpeeds P + i)
                       (m_daeIndices st ! k)
                     = ent zdot i k)))
      \<and> (m_numPointsIgnoringConstraints st \<noteq> 0 \<longrightarrow>
          (\<exists>udot zdot rest.
            evalOnTrajectory P st (getMultibodySystemIgnoringConstraints P)
              [states, controls, multipliers, derivatives] DaeIndicesIgnoringConstraints
              = Inr (udot # zdot # rest)
          \<and> (\<forall>k<length (m_daeIndicesIgnoringConstraints st).
                (\<forall>i<getNumSpeeds P.
                   ent (m_xdot st') (getNumCoordinates P + i)
                       (m_daeIndicesIgnoringConstraints st ! k)
                     = ent udot i k)
              \<and> (\<forall>i. getNumCoordinates P + getNumSpeeds P + i < getNumStates P \<longrightarrow>
                   ent (m_xdot st') (getNumCoordinates P + getNumSpeeds P + i)
                       (m_daeIndicesIgnoringConstraints st ! k)
                     = ent zdot i k))))"
proof -
  let ?NQ = "getNumCoordinates P" and ?NU = "getNumSpeeds P" and ?NS = "getNumStates P"
  let ?dae = "m_daeIndices st" and ?ign = "m_daeIndicesIgnoringConstraints st"
  let ?inputs = "[states, controls, multipliers, derivatives]"
  from t obtain out o0 xdot1 o1 xdot2 o2
    where out: "evalOnTrajectory P st (getMultibodySystem P) ?inputs DaeIndices = Inr out"
      and o0: "vecAt out 0 = Inr o0" and o1: "vecAt out 1 = Inr o1"
      and o2: "vecAt out 2 = Inr o2"
      and x1: "setBlock (m_xdot st) ?NQ (?NQ + ?NU) ?dae o0 = Inr xdot1"
      and x2: "setBlock xdot1 (?NQ + ?NU) ?NS ?dae o1 = Inr xdot2"
      and rest: "(if m_numPointsIgnoringConstraints st \<noteq> 0
      then
        andThen (evalOnTrajectory P st (getMultibodySystemIgnoringConstraints P)
                   ?inputs DaeIndicesIgnoringConstraints) (\<lambda>out'.
        andThen (vecAt out' 0) (\<lambda>p0.
        andThen (setBlock xdot2 ?NQ (?NQ + ?NU) ?ign p0) (\<lambda>xdot3.
        andThen (vecAt out' 1) (\<lambda>p1.
        andThen (setBlock xdot3 (?NQ + ?NU) ?NS ?ign p1) (\<lambda>xdot4.
        Inr (st\<lparr>m_xdot := xdot4,
                m_constraints := (m_constraints st)\<lparr>kinematic := o2\<rparr>\<rparr>))))))
      else
        Inr (st\<lparr>m_xdot := xdot2,
                m_constraints := (m_constraints st)\<lparr>kinematic := o2\<rparr>\<rparr>)) = Inr st'"
    unfolding transcribe_explicit_def Let_def by (auto elim!: andThenE)
  from o0 o1 o2 obtain rest' where outl: "out = o0 # o1 # o2 # rest'"
    by (cases out; cases "tl out"; cases "tl (tl out)") (auto simp: vecAt_def)
  note f1 = setBlock_ent [OF x1, unfolded s1 s2]
  note f2 = setBlock_ent [OF x2, unfolded f1(1,2)]
  have b: "?NQ + ?NU \<le> ?NS" and dae: "\<forall>j\<in>set ?dae. j < G"
    using f1(3,4) by simp_all
  have k: "lastPos ?dae (?dae ! k) = k" "?dae ! k \<in> set ?dae" "?dae ! k < G"
      "?dae ! k \<notin> set ?ign" if "k < length ?dae" for k
    using that dd dae dis lastPos_distinct [of ?dae k] by (auto simp: disjoint_iff)
  have lo2: "ent xdot2 i j = ent (m_xdot st) i j" if "i < ?NQ" "j < G" for i j
    using that b f1(5) [of i j] f2(5) [of i j] by simp
  have u2: "ent xdot2 (?NQ + i) (?dae ! k) = ent o0 i k" if "i < ?NU" "k < length ?dae" for i k
    using that b k [of k] f1(5) [of "?NQ + i" "?dae ! k"] f2(5) [of "?NQ + i" "?dae ! k"]
    by simp
  have z2: "ent xdot2 (?NQ + ?NU + i) (?dae ! k) = ent o1 i k"
    if "?NQ + ?NU + i < ?NS" "k < length ?dae" for i k
    using that k [of k] f2(5) [of "?NQ + ?NU + i" "?dae ! k"] by simp
  show ?thesis
  proof (cases "m_numPointsIgnoringConstraints st \<noteq> 0")
    case False
    with rest have "st' = st\<lparr>m_xdot := xdot2,
                m_constraints := (m_constraints st)\<lparr>kinematic := o2\<rparr>\<rparr>"
      by simp
    with False f2(1,2) dae lo2 u2 z2 out outl show ?thesis
      by simp
  next
    case True
    with rest obtain out' p0 xdot3 p1 xdot4
      where out': "evalOnTrajectory P st (getMultibodySystemIgnoringConstraints P)
                   ?inputs DaeIndicesIgnoringConstraints = Inr out'"
        and p0: "vecAt out' 0 = Inr p0" and p1: "vecAt out' 1 = Inr p1"
        and x3: "setBlock xdot2 ?NQ (?NQ + ?NU) ?ign p0 = Inr xdot3"
        and x4: "setBlock xdot3 (?NQ + ?NU) ?NS ?ign p1 = Inr xdot4"
        and st': "st' = st\<lparr>m_xdot := xdot4,
                m_constraints := (m_constraints st)\<lparr>kinematic := o2\<rparr>\<rparr>"
      by (auto elim!: andThenE)
    from p0 p1 obtain rest'' where outl': "out' = p0 # p1 # rest''"
      by (cases out'; cases "tl out'") (auto simp: vecAt_def)
    note f3 = setBlock_ent [OF x3, unfolded f2(1,2)]
    note f4 = setBlock_ent [OF x4, unfolded f3(1,2)]
    have ign: "\<forall>j\<in>set ?ign. j < G"
      using f3(4) by simp
    have g: "lastPos ?ign (?ign ! k) = k" "?ign ! k \<in> set ?ign" "?ign ! k < G"
      if "k < length ?ign" for k
      using that di ign lastPos_distinct [of ?ign k] by auto
    have lo4: "ent xdot4 i j = ent (m_xdot st) i j" if "i < ?NQ" "j < G" for i j
      using that b lo2 [of i j] f3(5) [of i j] f4(5) [of i j] by simp
    have u4: "ent xdot4 (?NQ + i) (?dae ! k) = ent o0 i k"
      if "i < ?NU" "k < length ?dae" for i k
      using that b k [of k] u2 [of i k] f3(5) [of "?NQ + i" "?dae ! k"]
        f4(5) [of "?NQ + i" "?dae ! k"]
      by simp
    have z4: "ent xdot4 (?NQ + ?NU + i) (?dae ! k) = ent o1 i k"
      if "?NQ + ?NU + i < ?NS" "k < length ?dae" for i k
      using that k [of k] z2 [of i k] f3(5) [of "?NQ + ?NU + i" "?dae ! k"]
        f4(5) [of "?NQ + ?NU + i" "?dae ! k"]
      by simp
    have u4': "ent xdot4 (?NQ + i) (?ign ! k) = ent p0 i k"
      if "i < ?NU" "k < length ?ign" for i k
      using that b g [of k] f3(5) [of "?NQ + i" "?ign ! k"] f4(5) [of "?NQ + i" "?ign ! k"]
      by simp
    have z4': "ent xdot4 (?NQ + ?NU + i) (?ign ! k) = ent p1 i k"
      if "?NQ + ?NU + i < ?NS" "k < length ?ign" for i k
      using that g [of k] f4(5) [of "?NQ + ?NU + i" "?ign ! k"] by simp
    from st' True f4(1,2) dae lo4 u4 z4 u4' z4' out outl out' outl' show ?thesis
      by simp
  qed
qed

lemma transcribe_path_Inr:
  assumes "transcribe_path P st = Inr st'"
  shows "modifies st st' \<and> m_xdot st' = m_xdot st
      \<and> residuals (m_constraints st') = residuals (m_constraints st)
      \<and> residuals (m_constraintsLowerBounds st') = residuals (m_constraintsLowerBounds st)
      \<and> residuals (m_constraintsUpperBounds st') = residuals (m_constraintsUpperBounds st)"
  using assms unfolding transcribe_path_def
  by (auto elim!: andThenE)

lemma transcribe_phases:
  assumes "transcribe S P Sch st0 = Inr st"
  obtains st1 st2 st3 st4 d where
    "setObjective S P Sch st0 = Inr st1" and "getNumCoordinates P = getNumSpeeds P"
    and "transcribe_init S P st1 = Inr st2" and "transcribe_qdot P st2 = Inr st3"
    and "(if isDynamicsModeImplicit S then transcribe_implicit P st3
          else transcribe_explicit P st3) = Inr st4"
    and "calcDefects Sch st4 = Inr d"
    and "transcribe_path P (st4\<lparr>m_constraints := (m_constraints st4)\<lparr>defects := d\<rparr>\<rparr>) = Inr st"
  using assms unfolding transcribe_def
  by (auto elim!: andThenE split: if_splits)

lemma createVariables_states:
  assumes "createVariables \<sigma> P G Pn = Inr vars"
  shows "varGet vars states = tabulate (getNumStates P) (nat G) (\<sigma> states)"
    and "varGet vars derivatives = tabulate (getNumDerivatives P) (nat G) (\<sigma> derivatives)"
    and "varGet vars multipliers = tabulate (getNumMultipliers P) (nat G) (\<sigma> multipliers)"
    and "varGet vars initial_time = tabulate 1 1 (\<sigma> initial_time)"
    and "varGet vars final_time = tabulate 1 1 (\<sigma> final_time)"
    and "0 \<le> G" and "0 \<le> Pn"
  using assms unfolding createVariables_def
  by (auto elim!: andThenE simp: varGet_def MXsym_def split: if_splits)

text \<open>What \<^verbatim>\<open>transcribe\<close> leaves in the qdot rows of \<^verbatim>\<open>m_xdot\<close>.\<close>

lemma transcribe_qdot_rows:
  assumes cv: "createVariablesAndSetBounds \<sigma> S P Sch setBounds grid Nd = Inr st0"
    and tr: "transcribe S P Sch st0 = Inr st"
  shows "modifies st0 st \<and> size1 (m_xdot st) = getNumStates P \<and> size2 (m_xdot st) = numel grid
      \<and> (\<forall>j\<in>set (m_daeIndices st). j < numel grid)
      \<and> ((getEnforceConstraintDerivatives P \<and> m_numPointsIgnoringConstraints st \<noteq> 0)
          \<longrightarrow> (\<forall>j\<in>set (m_daeIndicesIgnoringConstraints st). j < numel grid))
      \<and> ((getEnforceConstraintDerivatives P \<and> m_numPointsIgnoringConstraints st \<noteq> 0)
          \<longrightarrow> (\<exists>uCorr rest.
                 evalOnTrajectory P st (getVelocityCorrection P) [multibody_states, slacks]
                   DaeIndicesIgnoringConstraints = Inr (uCorr # rest)
               \<and> (\<forall>i<getNumCoordinates P. \<forall>j<numel grid.
                     ent (m_xdot st) i j =
                       ent (varGet (m_vars st) states) (getNumCoordinates P + i) j
                       + (if j \<in> set (m_daeIndicesIgnoringConstraints st)
                          then (if isScalar uCorr then ent uCorr 0 0
                                else ent uCorr i (lastPos (m_daeIndicesIgnoringConstraints st) j))
                          else 0))))
      \<and> (\<not> (getEnforceConstraintDerivatives P \<and> m_numPointsIgnoringConstraints st \<noteq> 0)
          \<longrightarrow> (\<forall>i<getNumCoordinates P. \<forall>j<numel grid.
                 ent (m_xdot st) i j
                   = ent (varGet (m_vars st) states) (getNumCoordinates P + i) j))"
proof -
  from tr obtain st1 st2 st3 st4 d where
    p1: "setObjective S P Sch st0 = Inr st1"
    and p2: "transcribe_init S P st1 = Inr st2" and p3: "transcribe_qdot P st2 = Inr st3"
    and p4: "(if isDynamicsModeImplicit S then transcribe_implicit P st3
          else transcribe_explicit P st3) = Inr st4"
    and p6: "transcribe_path P (st4\<lparr>m_constraints := (m_constraints st4)\<lparr>defects := d\<rparr>\<rparr>) = Inr st"
    by (rule transcribe_phases)
  from createVariablesAndSetBounds_Inr [OF cv] obtain dae ign
    where sp: "splitIndices (createKinematicConstraintIndices Sch)
          [0..<size2 (createKinematicConstraintIndices Sch)] = Inr (dae, ign)"
      and ix: "m_daeIndices st0 = dae" "m_daeIndicesIgnoringConstraints st0 = ign"
      and G0: "m_numGridPoints st0 = int (numel grid)"
    by auto
  note m1 = setObjective_modifies [OF p1]
  note m2 = transcribe_init_Inr [OF p2]
  from m1 m2(1) have m02: "modifies st0 st2" by (blast intro: modifies_trans)
  from m1 G0 have G1: "nat (m_numGridPoints st1) = numel grid" by (simp add: modifies_def)
  note q = transcribe_qdot_Inr [OF p3 m2(2) [unfolded G1]]
  from m02 q have m03: "modifies st0 st3" by (blast intro: modifies_trans)
  have ix3: "m_daeIndices st3 = dae" "m_daeIndicesIgnoringConstraints st3 = ign"
    using m03 ix by (simp_all add: modifies_def)
  have d4: "modifies st3 st4 \<and> size1 (m_xdot st4) = getNumStates P
      \<and> size2 (m_xdot st4) = numel grid \<and> (\<forall>j\<in>set (m_daeIndices st3). j < numel grid)
      \<and> (\<forall>i<getNumCoordinates P. \<forall>j<numel grid. ent (m_xdot st4) i j = ent (m_xdot st3) i j)"
  proof (cases "isDynamicsModeImplicit S")
    case True
    with p4 have "transcribe_implicit P st3 = Inr st4" by simp
    from transcribe_implicit_Inr [OF this, of "numel grid"] q show ?thesis by simp
  next
    case False
    with p4 have "transcribe_explicit P st3 = Inr st4" by simp
    from transcribe_explicit_Inr [OF this, of "numel grid"] q ix3 splitIndices_upt(1-3) [OF sp]
    show ?thesis by simp
  qed
  note m6 = transcribe_path_Inr [OF p6]
  from m03 d4 m6 have m0: "modifies st0 st"
    by (auto simp: modifies_def)
  have m2s: "modifies st2 st" and m3s: "modifies st3 st"
    using q d4 m6 by (auto simp: modifies_def)
  have xs: "m_xdot st = m_xdot st4" using m6 by simp
  have ev: "evalOnTrajectory P st f ins r = evalOnTrajectory P st2 f ins r" for f ins r
    using m2s by (rule evalOnTrajectory_modifies)
  have f: "m_vars st = m_vars st2"
    "m_daeIndicesIgnoringConstraints st = m_daeIndicesIgnoringConstraints st2"
    "m_numPointsIgnoringConstraints st = m_numPointsIgnoringConstraints st2"
    "m_daeIndices st = m_daeIndices st3"
    using m2s m3s by (simp_all add: modifies_def)
  from q d4 show ?thesis
    unfolding ev f xs using m0 by auto
qed

lemma hsTranscribed_eq: "transcribe hsSolver hsProblem hsScheme hsObject = Inr hsTranscribed"
proof -
  have "\<not> isl (transcribe hsSolver hsProblem hsScheme hsObject)"
    by code_simp
  then show ?thesis
    unfolding hsTranscribed_def by (rule Inr_projr)
qed

lemma hsImplicitObject_eq:
  "createVariablesAndSetBounds hsValuation hsImplicitSolver hsProblem hsScheme
     hsSetBounds hsGrid 4 = Inr hsImplicitObject"
proof -
  have "\<not> isl (createVariablesAndSetBounds hsValuation hsImplicitSolver hsProblem hsScheme
     hsSetBounds hsGrid 4)"
    by code_simp
  then show ?thesis
    unfolding hsImplicitObject_def by (rule Inr_projr)
qed

lemma hsImplicitTranscribed_eq:
  "transcribe hsImplicitSolver hsProblem hsScheme hsImplicitObject = Inr hsImplicitTranscribed"
proof -
  have "\<not> isl (transcribe hsImplicitSolver hsProblem hsScheme hsImplicitObject)"
    by code_simp
  then show ?thesis
    unfolding hsImplicitTranscribed_def by (rule Inr_projr)
qed

lemma hsGrid_numel: "numel hsGrid = 3"
  by code_simp


lemma trajInput_velocityCorrection [simp]:
  "trajInput (P\<lparr>getVelocityCorrection := f\<rparr>) = trajInput P"
  by (intro ext) (simp add: trajInput_def)

lemma evalOnTrajectory_velocityCorrection [simp]:
  "evalOnTrajectory (P\<lparr>getVelocityCorrection := f\<rparr>) = evalOnTrajectory P"
  by (intro ext) (simp add: evalOnTrajectory_def evalOnTrajectory_mxIn_def)

lemma pathConstraint_velocityCorrection [simp]:
  "pathConstraint (P\<lparr>getVelocityCorrection := f\<rparr>) = pathConstraint P"
  by (intro ext) (simp add: pathConstraint_def)

lemma phases_velocityCorrection [simp]:
  "setObjective S (P\<lparr>getVelocityCorrection := f\<rparr>) = setObjective S P"
  "transcribe_init S (P\<lparr>getVelocityCorrection := f\<rparr>) = transcribe_init S P"
  "transcribe_implicit (P\<lparr>getVelocityCorrection := f\<rparr>) = transcribe_implicit P"
  "transcribe_explicit (P\<lparr>getVelocityCorrection := f\<rparr>) = transcribe_explicit P"
  "transcribe_path (P\<lparr>getVelocityCorrection := f\<rparr>) = transcribe_path P"
  by (intro ext; simp add: setObjective_def transcribe_init_def transcribe_implicit_def
      transcribe_explicit_def transcribe_path_def Let_def cong: if_cong)+

lemma transcribe_qdot_velocityCorrection:
  assumes "\<not> (getEnforceConstraintDerivatives P \<and> m_numPointsIgnoringConstraints st \<noteq> 0)"
  shows "transcribe_qdot (P\<lparr>getVelocityCorrection := f\<rparr>) st = transcribe_qdot P st"
  using assms by (auto simp: transcribe_qdot_def)

lemma transcribe_velocityCorrection:
  assumes "\<not> (getEnforceConstraintDerivatives P \<and> m_numPointsIgnoringConstraints st0 \<noteq> 0)"
  shows "transcribe S (P\<lparr>getVelocityCorrection := f\<rparr>) Sch st0 = transcribe S P Sch st0"
proof (cases "setObjective S P Sch st0")
  case (Inl e)
  then show ?thesis by (simp add: transcribe_def)
next
  case (Inr st1)
  note o = this
  show ?thesis
  proof (cases "transcribe_init S P st1")
    case (Inl e)
    with o show ?thesis by (simp add: transcribe_def)
  next
    case (Inr st2)
    from setObjective_modifies [OF o] transcribe_init_Inr(1) [OF Inr]
    have "m_numPointsIgnoringConstraints st2 = m_numPointsIgnoringConstraints st0"
      by (simp add: modifies_def)
    with assms have "transcribe_qdot (P\<lparr>getVelocityCorrection := f\<rparr>) st2 = transcribe_qdot P st2"
      by (intro transcribe_qdot_velocityCorrection) simp
    with o Inr show ?thesis by (simp add: transcribe_def cong: if_cong)
  qed
qed

text \<open>
  C2. After \<^verbatim>\<open>createVariablesAndSetBounds\<close> and \<^verbatim>\<open>transcribe\<close>: when the derivatives of
  the kinematic constraints are enforced and there is an interior grid point, the
  velocity correction is evaluated on \<^verbatim>\<open>m_daeIndicesIgnoringConstraints\<close> (IIC), its
  first output \<open>uCorr\<close> is added to the qdot rows \<open>0..<NQ\<close> of \<^verbatim>\<open>m_xdot\<close> at the
  columns in IIC, column \<open>k\<close> of \<open>uCorr\<close> at column \<open>IIC ! k\<close> (a \<open>1 \<times> 1\<close> output
  is added as CasADi adds a scalar), and the qdot rows of every other column are the
  speed rows of the states. Otherwise the velocity correction is not evaluated: the
  result of \<^verbatim>\<open>transcribe\<close> is the same whatever function stands for it, and all qdot
  rows are the speed rows of the states.
\<close>

theorem velocity_correction_at_interior_columns:
  assumes cv: "createVariablesAndSetBounds \<sigma> S P Sch setBounds grid Nd = Inr st0"
    and tr: "transcribe S P Sch st0 = Inr st"
  shows "((getEnforceConstraintDerivatives P \<and> 0 < m_numPointsIgnoringConstraints st)
          \<longrightarrow> (\<exists>uCorr rest.
                 evalOnTrajectory P st (getVelocityCorrection P) [multibody_states, slacks]
                   DaeIndicesIgnoringConstraints = Inr (uCorr # rest)
               \<and> (\<forall>i<getNumCoordinates P.
                    (\<forall>k<length (m_daeIndicesIgnoringConstraints st).
                       ent (m_xdot st) i (m_daeIndicesIgnoringConstraints st ! k) =
                         ent (varGet (m_vars st) states) (getNumCoordinates P + i)
                           (m_daeIndicesIgnoringConstraints st ! k)
                         + (if isScalar uCorr then ent uCorr 0 0 else ent uCorr i k))
                  \<and> (\<forall>j<numel grid. j \<notin> set (m_daeIndicesIgnoringConstraints st) \<longrightarrow>
                       ent (m_xdot st) i j
                         = ent (varGet (m_vars st) states) (getNumCoordinates P + i) j))))
      \<and> (\<not> (getEnforceConstraintDerivatives P \<and> 0 < m_numPointsIgnoringConstraints st)
          \<longrightarrow> (\<forall>f. transcribe S (P\<lparr>getVelocityCorrection := f\<rparr>) Sch st0 = Inr st)
            \<and> (\<forall>i<getNumCoordinates P. \<forall>j<numel grid.
                 ent (m_xdot st) i j
                   = ent (varGet (m_vars st) states) (getNumCoordinates P + i) j))"
proof -
  let ?ign = "m_daeIndicesIgnoringConstraints st"
  note r = transcribe_qdot_rows [OF cv tr]
  from createVariablesAndSetBounds_Inr [OF cv] obtain vars dae ign
    where sp: "splitIndices (createKinematicConstraintIndices Sch)
          [0..<size2 (createKinematicConstraintIndices Sch)] = Inr (dae, ign)"
      and ix: "m_daeIndicesIgnoringConstraints st0 = ign"
      and vs: "createVariables \<sigma> P (int (numel grid))
                 (int (numel grid) - int (length (getMesh S))) = Inr vars"
      and Pn: "m_numPointsIgnoringConstraints st0 = int (numel grid) - int (length (getMesh S))"
    by auto
  from r ix Pn have ix': "?ign = ign"
    and Pn': "m_numPointsIgnoringConstraints st = m_numPointsIgnoringConstraints st0"
    by (simp_all add: modifies_def)
  from createVariables_states(7) [OF vs] Pn Pn'
  have pos: "(0 < m_numPointsIgnoringConstraints st) = (m_numPointsIgnoringConstraints st \<noteq> 0)"
    by auto
  have di: "distinct ?ign"
    using splitIndices_upt(2) [OF sp] ix' by simp
  show ?thesis
  proof (cases "getEnforceConstraintDerivatives P \<and> m_numPointsIgnoringConstraints st \<noteq> 0")
    case True
    with r obtain uCorr rest
      where ev: "evalOnTrajectory P st (getVelocityCorrection P) [multibody_states, slacks]
                   DaeIndicesIgnoringConstraints = Inr (uCorr # rest)"
        and e: "\<And>i j. i < getNumCoordinates P \<Longrightarrow> j < numel grid \<Longrightarrow>
                     ent (m_xdot st) i j =
                       ent (varGet (m_vars st) states) (getNumCoordinates P + i) j
                       + (if j \<in> set ?ign
                          then (if isScalar uCorr then ent uCorr 0 0
                                else ent uCorr i (lastPos ?ign j))
                          else 0)"
        and b: "\<forall>j\<in>set ?ign. j < numel grid"
      by auto
    have "ent (m_xdot st) i (?ign ! k) =
            ent (varGet (m_vars st) states) (getNumCoordinates P + i) (?ign ! k)
            + (if isScalar uCorr then ent uCorr 0 0 else ent uCorr i k)"
      if "i < getNumCoordinates P" "k < length ?ign" for i k
      using e [of i "?ign ! k"] that b di lastPos_distinct [of ?ign k] by simp
    moreover have "ent (m_xdot st) i j
            = ent (varGet (m_vars st) states) (getNumCoordinates P + i) j"
      if "i < getNumCoordinates P" "j < numel grid" "j \<notin> set ?ign" for i j
      using e [of i j] that by simp
    ultimately show ?thesis
      using True ev pos by auto
  next
    case False
    with Pn' have "\<not> (getEnforceConstraintDerivatives P \<and> m_numPointsIgnoringConstraints st0 \<noteq> 0)"
      by simp
    from transcribe_velocityCorrection [OF this] tr
    have "\<forall>f. transcribe S (P\<lparr>getVelocityCorrection := f\<rparr>) Sch st0 = Inr st"
      by simp
    with False r pos show ?thesis
      by auto
  qed
qed


theorem velocity_correction_at_interior_columns_witness:
  "transcribe hsSolver hsProblem hsScheme hsObject = Inr hsTranscribed
   \<and> m_daeIndicesIgnoringConstraints hsTranscribed = [1]
   \<and> ent (varGet (m_vars hsTranscribed) states) 1 1 = 12
   \<and> ent (m_xdot hsTranscribed) 0 1 = 26"
proof -
  note t = velocity_correction_at_interior_columns
    [OF hsBuild_hsObject [unfolded hsBuild_def] hsTranscribed_eq]
  have c: "getEnforceConstraintDerivatives hsProblem \<and> 0 < m_numPointsIgnoringConstraints hsTranscribed"
    by code_simp
  have ign: "m_daeIndicesIgnoringConstraints hsTranscribed = [1]"
    by code_simp
  have ev: "evalOnTrajectory hsProblem hsTranscribed (getVelocityCorrection hsProblem)
              [multibody_states, slacks] DaeIndicesIgnoringConstraints = Inr [rowvec [14]]"
    by code_simp
  have x: "ent (varGet (m_vars hsTranscribed) states) 1 1 = 12"
    by code_simp
  have u: "isScalar (rowvec [14])" "ent (rowvec [14]) 0 0 = 14"
    by code_simp+
  have q: "getNumCoordinates hsProblem = 1"
    by (simp add: hsProblem_def)
  from t c obtain uCorr rest where
    e: "evalOnTrajectory hsProblem hsTranscribed (getVelocityCorrection hsProblem)
              [multibody_states, slacks] DaeIndicesIgnoringConstraints = Inr (uCorr # rest)"
    and f: "\<forall>i<getNumCoordinates hsProblem.
              \<forall>k<length (m_daeIndicesIgnoringConstraints hsTranscribed).
                 ent (m_xdot hsTranscribed) i (m_daeIndicesIgnoringConstraints hsTranscribed ! k) =
                   ent (varGet (m_vars hsTranscribed) states) (getNumCoordinates hsProblem + i)
                     (m_daeIndicesIgnoringConstraints hsTranscribed ! k)
                   + (if isScalar uCorr then ent uCorr 0 0 else ent uCorr i k)"
    by blast
  from e ev have "uCorr = rowvec [14]" by simp
  with f [rule_format, of 0 0] ign x u q have "ent (m_xdot hsTranscribed) 0 1 = 26"
    by simp
  with hsTranscribed_eq ign x show ?thesis
    by simp
qed

text \<open>
  C9. After \<^verbatim>\<open>transcribe\<close>, at every column of \<^verbatim>\<open>m_daeIndices\<close> (the mesh points)
  the qdot rows \<open>0..<NQ\<close> of \<^verbatim>\<open>m_xdot\<close> are the speed rows \<open>NQ..<NQ+NU\<close> of the
  states block: the velocity correction does not touch these columns.
\<close>

theorem qdot_at_mesh_points:
  assumes cv: "createVariablesAndSetBounds \<sigma> S P Sch setBounds grid Nd = Inr st0"
    and tr: "transcribe S P Sch st0 = Inr st"
  shows "\<forall>j\<in>set (m_daeIndices st). \<forall>i<getNumCoordinates P.
           ent (m_xdot st) i j = ent (varGet (m_vars st) states) (getNumCoordinates P + i) j"
proof (intro ballI allI impI)
  fix j i
  assume j: "j \<in> set (m_daeIndices st)" and i: "i < getNumCoordinates P"
  note r = transcribe_qdot_rows [OF cv tr]
  from createVariablesAndSetBounds_Inr [OF cv] obtain dae ign
    where sp: "splitIndices (createKinematicConstraintIndices Sch)
          [0..<size2 (createKinematicConstraintIndices Sch)] = Inr (dae, ign)"
      and ix: "m_daeIndices st0 = dae" "m_daeIndicesIgnoringConstraints st0 = ign"
    by auto
  from r ix have ix': "m_daeIndices st = dae" "m_daeIndicesIgnoringConstraints st = ign"
    by (simp_all add: modifies_def)
  from splitIndices_upt(3) [OF sp] j ix' have n: "j \<notin> set (m_daeIndicesIgnoringConstraints st)"
    by auto
  from r j have jG: "j < numel grid" by simp
  show "ent (m_xdot st) i j = ent (varGet (m_vars st) states) (getNumCoordinates P + i) j"
  proof (cases "getEnforceConstraintDerivatives P \<and> m_numPointsIgnoringConstraints st \<noteq> 0")
    case True
    with r obtain uCorr where "\<And>i j. i < getNumCoordinates P \<Longrightarrow> j < numel grid \<Longrightarrow>
                     ent (m_xdot st) i j =
                       ent (varGet (m_vars st) states) (getNumCoordinates P + i) j
                       + (if j \<in> set (m_daeIndicesIgnoringConstraints st)
                          then (if isScalar uCorr then ent uCorr 0 0
                                else ent uCorr i
                                       (lastPos (m_daeIndicesIgnoringConstraints st) j))
                          else 0)"
      by auto
    from this [OF i jG] n show ?thesis by simp
  next
    case False
    with r i jG show ?thesis by auto
  qed
qed

theorem qdot_at_mesh_points_witness:
  "m_daeIndices hsTranscribed = [0, 2]
   \<and> ent (varGet (m_vars hsTranscribed) states) 1 2 = 13
   \<and> ent (m_xdot hsTranscribed) 0 2 = 13"
proof -
  note t = qdot_at_mesh_points [OF hsBuild_hsObject [unfolded hsBuild_def] hsTranscribed_eq]
  have dae: "m_daeIndices hsTranscribed = [0, 2]"
    by code_simp
  have x: "ent (varGet (m_vars hsTranscribed) states) 1 2 = 13"
    by code_simp
  have q: "getNumCoordinates hsProblem = 1"
    by (simp add: hsProblem_def)
  from t [rule_format, of 2 0] dae x q show ?thesis
    by simp
qed

text \<open>
  C3. After \<^verbatim>\<open>transcribe\<close> in implicit mode, \<^verbatim>\<open>m_numResiduals\<close> is the number of
  speeds, the udot rows \<open>NQ..<NQ+NU\<close> of \<^verbatim>\<open>m_xdot\<close> are the derivatives block at
  every grid column, the residuals block is \<open>NU \<times> G\<close>, and its lower and upper bounds
  are the \<open>NU \<times> G\<close> zero matrix. In explicit mode \<^verbatim>\<open>m_numResiduals\<close> is zero, and
  the outputs \<open>udot\<close> and \<open>zdot\<close> of the multibody system are written into the rows
  \<open>NQ..<NQ+NU\<close> and \<open>NQ+NU..<NS\<close> of \<^verbatim>\<open>m_xdot\<close>, at the columns of
  \<^verbatim>\<open>m_daeIndices\<close> from the system with constraints and, when there are interior
  points, at the columns of \<^verbatim>\<open>m_daeIndicesIgnoringConstraints\<close> from the system
  ignoring constraints.
\<close>

theorem udot_rows_and_residuals:
  assumes cv: "createVariablesAndSetBounds \<sigma> S P Sch setBounds grid Nd = Inr st0"
    and tr: "transcribe S P Sch st0 = Inr st"
  shows "(isDynamicsModeImplicit S \<longrightarrow>
            m_numResiduals st = int (getNumSpeeds P)
          \<and> (\<forall>i<getNumSpeeds P. \<forall>j<numel grid.
                ent (m_xdot st) (getNumCoordinates P + i) j
                  = ent (varGet (m_vars st) derivatives) i j)
          \<and> size1 (residuals (m_constraints st)) = getNumSpeeds P
          \<and> size2 (residuals (m_constraints st)) = numel grid
          \<and> residuals (m_constraintsLowerBounds st)
              = tabulate (getNumSpeeds P) (numel grid) (\<lambda>i j. 0)
          \<and> residuals (m_constraintsUpperBounds st)
              = tabulate (getNumSpeeds P) (numel grid) (\<lambda>i j. 0))
      \<and> (\<not> isDynamicsModeImplicit S \<longrightarrow>
            m_numResiduals st = 0
          \<and> (\<exists>udot zdot kcerr rest.
                evalOnTrajectory P st (getMultibodySystem P)
                  [states, controls, multipliers, derivatives] DaeIndices
                  = Inr (udot # zdot # kcerr # rest)
              \<and> (\<forall>k<length (m_daeIndices st).
                    (\<forall>i<getNumSpeeds P.
                       ent (m_xdot st) (getNumCoordinates P + i) (m_daeIndices st ! k)
                         = ent udot i k)
                  \<and> (\<forall>i. getNumCoordinates P + getNumSpeeds P + i < getNumStates P \<longrightarrow>
                       ent (m_xdot st) (getNumCoordinates P + getNumSpeeds P + i)
                           (m_daeIndices st ! k)
                         = ent zdot i k)))
          \<and> (0 < m_numPointsIgnoringConstraints st \<longrightarrow>
              (\<exists>udot zdot rest.
                evalOnTrajectory P st (getMultibodySystemIgnoringConstraints P)
                  [states, controls, multipliers, derivatives] DaeIndicesIgnoringConstraints
                  = Inr (udot # zdot # rest)
              \<and> (\<forall>k<length (m_daeIndicesIgnoringConstraints st).
                    (\<forall>i<getNumSpeeds P.
                       ent (m_xdot st) (getNumCoordinates P + i)
                           (m_daeIndicesIgnoringConstraints st ! k)
                         = ent udot i k)
                  \<and> (\<forall>i. getNumCoordinates P + getNumSpeeds P + i < getNumStates P \<longrightarrow>
                       ent (m_xdot st) (getNumCoordinates P + getNumSpeeds P + i)
                           (m_daeIndicesIgnoringConstraints st ! k)
                         = ent zdot i k)))))"
proof -
  from tr obtain st1 st2 st3 st4 d where
    p1: "setObjective S P Sch st0 = Inr st1"
    and p2: "transcribe_init S P st1 = Inr st2" and p3: "transcribe_qdot P st2 = Inr st3"
    and p4: "(if isDynamicsModeImplicit S then transcribe_implicit P st3
          else transcribe_explicit P st3) = Inr st4"
    and p6: "transcribe_path P (st4\<lparr>m_constraints := (m_constraints st4)\<lparr>defects := d\<rparr>\<rparr>) = Inr st"
    by (rule transcribe_phases)
  from createVariablesAndSetBounds_Inr [OF cv] obtain dae ign
    where sp: "splitIndices (createKinematicConstraintIndices Sch)
          [0..<size2 (createKinematicConstraintIndices Sch)] = Inr (dae, ign)"
      and ix: "m_daeIndices st0 = dae" "m_daeIndicesIgnoringConstraints st0 = ign"
      and G0: "m_numGridPoints st0 = int (numel grid)"
      and NR0: "m_numResiduals st0
                 = (if isDynamicsModeImplicit S then int (getNumSpeeds P) else 0)"
    by auto
  note m1 = setObjective_modifies [OF p1]
  note m2 = transcribe_init_Inr [OF p2]
  from m1 G0 NR0 have G1: "nat (m_numGridPoints st1) = numel grid"
    and NR1: "m_numResiduals st1 = (if isDynamicsModeImplicit S then int (getNumSpeeds P) else 0)"
    by (simp_all add: modifies_def)
  note q = transcribe_qdot_Inr [OF p3 m2(2) [unfolded G1]]
  from m1 m2(1) q have m03: "modifies st0 st3" by (auto simp: modifies_def)
  have ix3: "m_daeIndices st3 = dae" "m_daeIndicesIgnoringConstraints st3 = ign"
    using m03 ix by (simp_all add: modifies_def)
  note m6 = transcribe_path_Inr [OF p6]
  have xs: "m_xdot st = m_xdot st4" using m6 by simp
  show ?thesis
  proof (cases "isDynamicsModeImplicit S")
    case True
    with p4 have "transcribe_implicit P st3 = Inr st4" by simp
    note t = transcribe_implicit_Inr [OF this, of "numel grid"]
    from t q m6 m03 have m3s: "modifies st3 st" and m0: "modifies st0 st"
      by (auto simp: modifies_def)
    from m2(4) [OF True] NR1 True G1
    have r2: "residuals (m_constraints st2) = tabulate (getNumSpeeds P) (numel grid) (\<lambda>i j. 1)"
      "residuals (m_constraintsLowerBounds st2)
         = tabulate (getNumSpeeds P) (numel grid) (\<lambda>i j. 0)"
      "residuals (m_constraintsUpperBounds st2)
         = tabulate (getNumSpeeds P) (numel grid) (\<lambda>i j. 0)"
      by simp_all
    have "m_numResiduals st = int (getNumSpeeds P)"
      using m0 NR0 True by (simp add: modifies_def)
    moreover have "\<forall>i<getNumSpeeds P. \<forall>j<numel grid.
                ent (m_xdot st) (getNumCoordinates P + i) j
                  = ent (varGet (m_vars st) derivatives) i j"
      using t q m3s xs by (simp add: modifies_def)
    moreover have "size1 (residuals (m_constraints st)) = getNumSpeeds P"
      "size2 (residuals (m_constraints st)) = numel grid"
      using t q m6 r2 by simp_all
    moreover have "residuals (m_constraintsLowerBounds st)
              = tabulate (getNumSpeeds P) (numel grid) (\<lambda>i j. 0)"
      "residuals (m_constraintsUpperBounds st)
              = tabulate (getNumSpeeds P) (numel grid) (\<lambda>i j. 0)"
      using t q m6 r2 by simp_all
    ultimately show ?thesis
      using True by simp
  next
    case False
    with p4 have "transcribe_explicit P st3 = Inr st4" by simp
    note t = transcribe_explicit_Inr [OF this, of "numel grid"]
    have pre: "size1 (m_xdot st3) = getNumStates P" "size2 (m_xdot st3) = numel grid"
      "set (m_daeIndices st3) \<inter> set (m_daeIndicesIgnoringConstraints st3) = {}"
      "distinct (m_daeIndices st3)" "distinct (m_daeIndicesIgnoringConstraints st3)"
      using q ix3 splitIndices_upt(1-3) [OF sp] by simp_all
    note t' = t [OF pre]
    from t' q m6 m03 have m3s: "modifies st3 st" and m0: "modifies st0 st"
      by (auto simp: modifies_def)
    have ev: "evalOnTrajectory P st f ins r = evalOnTrajectory P st3 f ins r" for f ins r
      using m3s by (rule evalOnTrajectory_modifies)
    have f: "m_daeIndices st = m_daeIndices st3"
      "m_daeIndicesIgnoringConstraints st = m_daeIndicesIgnoringConstraints st3"
      "m_numPointsIgnoringConstraints st = m_numPointsIgnoringConstraints st3"
      using m3s by (simp_all add: modifies_def)
    have "m_numResiduals st = 0"
      using m0 NR0 False by (simp add: modifies_def)
    with t' False show ?thesis
      unfolding ev f xs by auto
  qed
qed

theorem udot_rows_and_residuals_witness:
  "ent (varGet (m_vars hsImplicitTranscribed) derivatives) 0 2 = 22
   \<and> ent (m_xdot hsImplicitTranscribed) 1 2 = 22
   \<and> residuals (m_constraintsLowerBounds hsImplicitTranscribed) = tabulate 1 3 (\<lambda>i j. 0)
   \<and> residuals (m_constraintsUpperBounds hsImplicitTranscribed) = tabulate 1 3 (\<lambda>i j. 0)
   \<and> m_numResiduals hsTranscribed = 0"
proof -
  note t = udot_rows_and_residuals [OF hsImplicitObject_eq hsImplicitTranscribed_eq]
  note t' = udot_rows_and_residuals
    [OF hsBuild_hsObject [unfolded hsBuild_def] hsTranscribed_eq]
  have i: "isDynamicsModeImplicit hsImplicitSolver" "\<not> isDynamicsModeImplicit hsSolver"
    by (simp_all add: hsImplicitSolver_def hsSolver_def)
  have q: "getNumCoordinates hsProblem = 1" "getNumSpeeds hsProblem = 1"
    by (simp_all add: hsProblem_def)
  have x: "ent (varGet (m_vars hsImplicitTranscribed) derivatives) 0 2 = 22"
    by code_simp
  from t i(1) have
    a: "\<forall>i<getNumSpeeds hsProblem. \<forall>j<numel hsGrid.
                ent (m_xdot hsImplicitTranscribed) (getNumCoordinates hsProblem + i) j
                  = ent (varGet (m_vars hsImplicitTranscribed) derivatives) i j"
    and b: "residuals (m_constraintsLowerBounds hsImplicitTranscribed)
              = tabulate (getNumSpeeds hsProblem) (numel hsGrid) (\<lambda>i j. 0)"
      "residuals (m_constraintsUpperBounds hsImplicitTranscribed)
              = tabulate (getNumSpeeds hsProblem) (numel hsGrid) (\<lambda>i j. 0)"
    by blast+
  from t' i(2) have c: "m_numResiduals hsTranscribed = 0"
    by blast
  from a [rule_format, of 0 2] b c x q hsGrid_numel show ?thesis
    by simp
qed

subsection \<open>setObjective\<close>

lemma sum_list_upt: "sum_list (map f [0..<n]) = (\<Sum>i<n. f i)"
  by (simp add: interv_sum_list_conv_sum_set_nat atLeast0LessThan)

lemma mapM_simps [simp]:
  "size1 (mapM f m) = size1 m" "size2 (mapM f m) = size2 m"
  "i < size1 m \<Longrightarrow> j < size2 m \<Longrightarrow> ent (mapM f m) i j = f (ent m i j)"
  by (simp_all add: mapM_def)

lemma sum1_sq:
  "size1 (sum1 (sq m)) = 1" "size2 (sum1 (sq m)) = size2 m"
  "j < size2 m \<Longrightarrow> ent (sum1 (sq m)) 0 j = (\<Sum>i<size1 m. (ent m i j)\<^sup>2)"
  by (simp_all add: sum1_def sq_def sum_list_upt power2_eq_square cong: map_cong)

lemma dot_row_column:
  assumes "dot (transposeM q) l = Inr d" and "size2 q = 1"
  shows "size1 l = 1" and "size2 l = size1 q"
    and "d = scalarM (\<Sum>j<size1 q. ent q j 0 * ent l 0 j)"
proof -
  from assms show s: "size1 l = 1" "size2 l = size1 q"
    by (auto simp: dot_def transposeM_def split: if_splits)
  have "entLinear (transposeM q) k * entLinear l k = ent q k 0 * ent l 0 k" if "k < size1 q" for k
    using that assms(2) s by (simp add: entLinear_def transposeM_def)
  then have "sum_list (map (\<lambda>k. entLinear (transposeM q) k * entLinear l k) [0..<size1 q])
          = (\<Sum>j<size1 q. ent q j 0 * ent l 0 j)"
    by (simp add: sum_list_upt)
  moreover have "numel (transposeM q) = size1 q"
    using assms(2) by (simp add: numel_def transposeM_def)
  moreover from assms(1)
  have "d = scalarM (sum_list (map (\<lambda>k. entLinear (transposeM q) k * entLinear l k)
                                [0..<numel (transposeM q)]))"
    by (simp add: dot_def split: if_splits)
  ultimately show "d = scalarM (\<Sum>j<size1 q. ent q j 0 * ent l 0 j)"
    by simp
qed

lemma timesM_scalars:
  assumes "timesM a b = Inr c" and "isScalar a" and "isScalar b"
  shows "c = scalarM (ent a 0 0 * ent b 0 0)"
  using assms by (simp add: timesM_def binaryM_def mapM_def isScalar_def tabulate_scalarM)

lemma plusM_scalar_left:
  assumes "plusM a b = Inr c" and "isScalar a"
  shows "size1 c = size1 b" and "size2 c = size2 b"
    and "\<And>i j. i < size1 b \<Longrightarrow> j < size2 b \<Longrightarrow> ent c i j = ent a 0 0 + ent b i j"
  using assms by (auto simp: plusM_def binaryM_def)

lemma minusM_scalars:
  assumes "minusM a b = Inr c" and "isScalar a" and "isScalar b"
  shows "isScalar c" and "ent c 0 0 = ent a 0 0 - ent b 0 0"
  using assms by (auto simp: minusM_def binaryM_def isScalar_def)

lemma createVariablesAndSetBounds_duration:
  assumes "createVariablesAndSetBounds \<sigma> S P Sch setBounds grid Nd = Inr st"
  shows "isScalar (m_duration st)"
    and "ent (m_duration st) 0 0 = \<sigma> final_time 0 0 - \<sigma> initial_time 0 0"
    and "varGet (m_vars st) multipliers
           = tabulate (getNumMultipliers P) (numel grid) (\<sigma> multipliers)"
proof -
  from createVariablesAndSetBounds_Inr [OF assms] obtain vars t0 tf
    where v: "createVariables \<sigma> P (int (numel grid))
                (int (numel grid) - int (length (getMesh S))) = Inr vars"
      and t: "varAt vars initial_time = Inr t0" "varAt vars final_time = Inr tf"
      and d: "minusM tf t0 = Inr (m_duration st)" and mv: "m_vars st = vars"
    by auto
  from createVariables_states [OF v] t
  have t0: "t0 = tabulate 1 1 (\<sigma> initial_time)" and tf: "tf = tabulate 1 1 (\<sigma> final_time)"
    by (auto simp: varAt_def varGet_def split: option.splits)
  from minusM_scalars [OF d] t0 tf
  show "isScalar (m_duration st)"
    "ent (m_duration st) 0 0 = \<sigma> final_time 0 0 - \<sigma> initial_time 0 0"
    by (simp_all add: isScalar_def)
  from createVariables_states(3) [OF v] mv
  show "varGet (m_vars st) multipliers
           = tabulate (getNumMultipliers P) (numel grid) (\<sigma> multipliers)"
    by simp
qed

text \<open>
  C1. The claim: the objective built by \<^verbatim>\<open>setObjective\<close> is
  \<open>(t\<^sub>f - t\<^sub>0) q\<^sup>T l + \<Phi> + w \<Sigma> \<lambda>\<^sup>2\<close>, with the regularization as a separate term outside
  the quadrature. The code adds \<open>w\<close> times the column sums of the squared multipliers to
  the integrand before the quadrature, so that the regularization is weighted by the
  quadrature coefficients and by the duration: on an object made by
  \<^verbatim>\<open>createVariablesAndSetBounds\<close>, with quadrature coefficients \<open>q\<close> in one column of the
  length of the grid and an integrand \<open>l\<close> in one row over the grid, the objective is
  \<open>(t\<^sub>f - t\<^sub>0) \<Sum>\<^sub>j q\<^sub>j (l\<^sub>j + w \<Sum>\<^sub>i \<lambda>\<^sub>i\<^sub>j\<^sup>2) + \<Phi>\<close>, where the term in \<open>w\<close> is present exactly when
  multipliers exist and their minimization is requested, and \<open>\<Phi>\<close> is the endpoint
  cost at the final time, the last columns of the states, controls, multipliers and
  derivatives, and the parameters.
\<close>

theorem objective_regularization_inside_quadrature:
  assumes cv: "createVariablesAndSetBounds \<sigma> S P Sch setBounds grid Nd = Inr st0"
    and so: "setObjective S P Sch st0 = Inr st"
    and ev: "evalOnTrajectory P st0 (getIntegralCostIntegrand P)
               [states, controls, multipliers, derivatives] GridIndices = Inr (l # rest)"
    and l: "size1 l = 1" "size2 l = numel grid"
    and q: "size1 (createQuadratureCoefficients Sch) = numel grid"
      "size2 (createQuadratureCoefficients Sch) = 1"
  shows "\<exists>x c m w phi rest'.
           lastCol (varGet (m_vars st0) states) = Inr x
         \<and> lastCol (varGet (m_vars st0) controls) = Inr c
         \<and> lastCol (varGet (m_vars st0) multipliers) = Inr m
         \<and> lastCol (varGet (m_vars st0) derivatives) = Inr w
         \<and> call (getEndpointCost P)
              [varGet (m_vars st0) final_time, x, c, m, w, varGet (m_vars st0) parameters]
              = Inr (phi # rest')
         \<and> size1 (m_objective st) = size1 phi \<and> size2 (m_objective st) = size2 phi
         \<and> (\<forall>i<size1 phi. \<forall>j<size2 phi.
               ent (m_objective st) i j =
                 (\<sigma> final_time 0 0 - \<sigma> initial_time 0 0)
                 * (\<Sum>j<numel grid.
                      ent (createQuadratureCoefficients Sch) j 0
                      * (ent l 0 j
                         + (if getMinimizeLagrangeMultipliers S \<and> getNumMultipliers P \<noteq> 0
                            then getLagrangeMultiplierWeight S
                                 * (\<Sum>i<getNumMultipliers P. (\<sigma> multipliers i j)\<^sup>2)
                            else 0)))
                 + ent phi i j)"
proof -
  let ?q = "createQuadratureCoefficients Sch"
  let ?w = "getLagrangeMultiplierWeight S"
  let ?reg = "getMinimizeLagrangeMultipliers S \<and> getNumMultipliers P \<noteq> 0"
  let ?L = "varGet (m_vars st0) multipliers"
  from so ev obtain lt d ic x c m w out phi ob
    where lt: "(if ?reg then plusM l (mapM (\<lambda>x. ?w * x) (sum1 (sq ?L))) else Inr l) = Inr lt"
      and d: "dot (transposeM ?q) lt = Inr d"
      and ic: "timesM (m_duration st0) d = Inr ic"
      and lc: "lastCol (varGet (m_vars st0) states) = Inr x"
        "lastCol (varGet (m_vars st0) controls) = Inr c"
        "lastCol (varGet (m_vars st0) multipliers) = Inr m"
        "lastCol (varGet (m_vars st0) derivatives) = Inr w"
      and out: "call (getEndpointCost P)
              [varGet (m_vars st0) final_time, x, c, m, w, varGet (m_vars st0) parameters]
              = Inr out"
      and phi: "vecAt out 0 = Inr phi"
      and ob: "plusM ic phi = Inr ob" and st: "st = st0\<lparr>m_objective := ob\<rparr>"
    unfolding setObjective_def Let_def
    by (auto elim!: andThenE simp: vecAt_def split: if_splits)
  from phi obtain rest' where o: "out = phi # rest'"
    by (auto dest: vecAt_0_Inr)
  note du = createVariablesAndSetBounds_duration [OF cv]
  have lj: "ent lt 0 j = ent l 0 j
              + (if ?reg then ?w * (\<Sum>i<getNumMultipliers P. (\<sigma> multipliers i j)\<^sup>2) else 0)"
    if j: "j < numel grid" for j
  proof (cases ?reg)
    case False
    with lt show ?thesis by auto
  next
    case True
    let ?r = "mapM (\<lambda>x. ?w * x) (sum1 (sq ?L))"
    from True lt have p: "plusM l ?r = Inr lt" by simp
    have sr: "size1 ?r = 1" "size2 ?r = numel grid"
      using du(3) by (simp_all add: sum1_sq)
    have er: "ent ?r 0 k = ?w * (\<Sum>i<getNumMultipliers P. (\<sigma> multipliers i k)\<^sup>2)"
      if "k < numel grid" for k
      using that du(3) by (simp add: sum1_sq)
    from plusM_shape [OF p] l sr have sl: "size1 lt = size1 l" "size2 lt = size2 l"
      by auto
    have "ent lt 0 j = ent l 0 j + (if isScalar ?r then ent ?r 0 0 else ent ?r 0 j)"
      using p sl l j by (intro plusM_ent) simp_all
    moreover have "(if isScalar ?r then ent ?r 0 0 else ent ?r 0 j) = ent ?r 0 j"
      using sr j by (auto simp: isScalar_def)
    ultimately show ?thesis
      using True er [OF j] by simp
  qed
  from dot_row_column [OF d q(2)] q(1)
  have d': "d = scalarM (\<Sum>j<numel grid. ent ?q j 0 * ent lt 0 j)"
    by simp
  have "(\<Sum>j<numel grid. ent ?q j 0 * ent lt 0 j)
      = (\<Sum>j<numel grid. ent ?q j 0 * (ent l 0 j
              + (if ?reg then ?w * (\<Sum>i<getNumMultipliers P. (\<sigma> multipliers i j)\<^sup>2) else 0)))"
    by (intro sum.cong refl) (simp add: lj)
  with d' have d'': "d = scalarM (\<Sum>j<numel grid. ent ?q j 0 * (ent l 0 j
              + (if ?reg then ?w * (\<Sum>i<getNumMultipliers P. (\<sigma> multipliers i j)\<^sup>2) else 0)))"
    by simp
  from timesM_scalars [OF ic du(1)] d'' du(2)
  have ic': "isScalar ic" "ent ic 0 0 = (\<sigma> final_time 0 0 - \<sigma> initial_time 0 0)
      * (\<Sum>j<numel grid. ent ?q j 0 * (ent l 0 j
              + (if ?reg then ?w * (\<Sum>i<getNumMultipliers P. (\<sigma> multipliers i j)\<^sup>2) else 0)))"
    by (simp_all add: isScalar_def)
  note pl = plusM_scalar_left [OF ob ic'(1)]
  from lc out o st pl ic'(2) show ?thesis
    by simp
qed

text \<open>
  On the instance the two differ: the integrand is \<open>(4, 9, 16)\<close>, the multipliers are
  \<open>(1, 2, 3)\<close>, the coefficients are \<open>(1/6, 2/3, 1/6)\<close>, the duration is \<open>3\<close>, the endpoint
  cost is \<open>3\<close> and the weight is \<open>1\<close>. The code gives \<open>3 (5/6 + 26/3 + 25/6) + 3 = 44\<close>,
  the formula with the separate term gives \<open>3 (4/6 + 6 + 16/6) + 3 + 14 = 45\<close>.
\<close>

theorem objective_differs_from_separate_regularization:
  "setObjective hsSolver hsProblem hsScheme hsObject = Inr hsWithObjective
   \<and> m_objective hsWithObjective = scalarM 44
   \<and> evalOnTrajectory hsProblem hsObject (getIntegralCostIntegrand hsProblem)
        [states, controls, multipliers, derivatives] GridIndices = Inr [rowvec [4, 9, 16]]
   \<and> call (getEndpointCost hsProblem)
        [scalarM 3, tabulate 2 1 (\<lambda>i j. [3, 13] ! i), scalarM 4, scalarM 3, scalarM 22,
         scalarM 9] = Inr [scalarM 3]
   \<and> varGet (m_vars hsObject) multipliers = rowvec [1, 2, 3]
   \<and> objective_spec 0 3 (createQuadratureCoefficients hsScheme) (rowvec [4, 9, 16]) 3
        (getMinimizeLagrangeMultipliers hsSolver \<and> getNumMultipliers hsProblem \<noteq> 0)
        (getLagrangeMultiplierWeight hsSolver) (rowvec [1, 2, 3]) = 45"
proof -
  have "\<not> isl (setObjective hsSolver hsProblem hsScheme hsObject)"
    by code_simp
  then have a: "setObjective hsSolver hsProblem hsScheme hsObject = Inr hsWithObjective"
    unfolding hsWithObjective_def by (rule Inr_projr)
  have b: "m_objective hsWithObjective = scalarM 44"
    by code_simp
  have c: "evalOnTrajectory hsProblem hsObject (getIntegralCostIntegrand hsProblem)
        [states, controls, multipliers, derivatives] GridIndices = Inr [rowvec [4, 9, 16]]"
    by code_simp
  have d: "call (getEndpointCost hsProblem)
        [scalarM 3, tabulate 2 1 (\<lambda>i j. [3, 13] ! i), scalarM 4, scalarM 3, scalarM 22,
         scalarM 9] = Inr [scalarM 3]"
    by code_simp
  have e: "varGet (m_vars hsObject) multipliers = rowvec [1, 2, 3]"
    by code_simp
  have f: "objective_spec 0 3 (createQuadratureCoefficients hsScheme) (rowvec [4, 9, 16]) 3
        (getMinimizeLagrangeMultipliers hsSolver \<and> getNumMultipliers hsProblem \<noteq> 0)
        (getLagrangeMultiplierWeight hsSolver) (rowvec [1, 2, 3]) = 45"
    by code_simp
  from a b c d e f show ?thesis
    by (intro conjI)
qed

theorem objective_regularization_inside_quadrature_witness:
  "createVariablesAndSetBounds hsValuation hsSolver hsProblem hsScheme hsSetBounds hsGrid 4
     = Inr hsObject
   \<and> setObjective hsSolver hsProblem hsScheme hsObject = Inr hsWithObjective
   \<and> ent (m_objective hsWithObjective) 0 0
       = (3 - 0) * (1/6 * (4 + 1 * 1\<^sup>2) + 2/3 * (9 + 1 * 2\<^sup>2) + 1/6 * (16 + 1 * 3\<^sup>2)) + 3"
proof -
  have "\<not> isl (setObjective hsSolver hsProblem hsScheme hsObject)"
    by code_simp
  then have a: "setObjective hsSolver hsProblem hsScheme hsObject = Inr hsWithObjective"
    unfolding hsWithObjective_def by (rule Inr_projr)
  have c: "evalOnTrajectory hsProblem hsObject (getIntegralCostIntegrand hsProblem)
        [states, controls, multipliers, derivatives] GridIndices = Inr [rowvec [4, 9, 16]]"
    by code_simp
  have s: "size1 (rowvec [4, 9, 16]) = 1" "size2 (rowvec [4, 9, 16]) = numel hsGrid"
    "size1 (createQuadratureCoefficients hsScheme) = numel hsGrid"
    "size2 (createQuadratureCoefficients hsScheme) = 1"
    by code_simp+
  note t = objective_regularization_inside_quadrature
    [OF hsBuild_hsObject [unfolded hsBuild_def] a c s]
  have lc: "lastCol (varGet (m_vars hsObject) states) = Inr (tabulate 2 1 (\<lambda>i j. [3, 13] ! i))"
    "lastCol (varGet (m_vars hsObject) controls) = Inr (scalarM 4)"
    "lastCol (varGet (m_vars hsObject) multipliers) = Inr (scalarM 3)"
    "lastCol (varGet (m_vars hsObject) derivatives) = Inr (scalarM 22)"
    "varGet (m_vars hsObject) final_time = scalarM 3"
    "varGet (m_vars hsObject) parameters = scalarM 9"
    by code_simp+
  have d: "call (getEndpointCost hsProblem)
        [scalarM 3, tabulate 2 1 (\<lambda>i j. [3, 13] ! i), scalarM 4, scalarM 3, scalarM 22,
         scalarM 9] = Inr [scalarM 3]"
    by code_simp
  have g: "numel hsGrid = 3" "getMinimizeLagrangeMultipliers hsSolver"
    "getNumMultipliers hsProblem = 1" "getLagrangeMultiplierWeight hsSolver = 1"
    "ent (createQuadratureCoefficients hsScheme) 0 0 = 1/6"
    "ent (createQuadratureCoefficients hsScheme) (Suc 0) 0 = 2/3"
    "ent (createQuadratureCoefficients hsScheme) (Suc (Suc 0)) 0 = 1/6"
    "ent (rowvec [4, 9, 16]) 0 0 = 4" "ent (rowvec [4, 9, 16]) 0 (Suc 0) = 9"
    "ent (rowvec [4, 9, 16]) 0 (Suc (Suc 0)) = 16"
    by code_simp+
  from t lc d have "\<forall>i<1. \<forall>j<1. ent (m_objective hsWithObjective) i j =
      (hsValuation final_time 0 0 - hsValuation initial_time 0 0)
      * (\<Sum>j<numel hsGrid. ent (createQuadratureCoefficients hsScheme) j 0
           * (ent (rowvec [4, 9, 16]) 0 j
              + (if getMinimizeLagrangeMultipliers hsSolver \<and> getNumMultipliers hsProblem \<noteq> 0
                 then getLagrangeMultiplierWeight hsSolver
                      * (\<Sum>i<getNumMultipliers hsProblem. (hsValuation multipliers i j)\<^sup>2)
                 else 0)))
      + ent (scalarM 3) i j"
    by (auto simp: scalarM_simps)
  then have "ent (m_objective hsWithObjective) 0 0
       = (3 - 0) * (1/6 * (4 + 1 * 1\<^sup>2) + 2/3 * (9 + 1 * 2\<^sup>2) + 1/6 * (16 + 1 * 3\<^sup>2)) + 3"
    by (simp add: g scalarM_simps lessThan_Suc eval_nat_numeral)
  with hsBuild_hsObject [unfolded hsBuild_def] a show ?thesis
    by simp
qed

subsection \<open>The slack guess of solve\<close>







end
